theory Spec2Isabelle
  imports Complex_Main "HOL-Library.AList"
begin

section \<open>The refresh pipeline of codexometer (edge function \<open>sentiment-refresh\<close>)\<close>

text \<open>
  A shallow embedding of the edge function that pulls posts and comments from the upstream
  content API, scores them and persists drafts and daily aggregates.

  Conventions of the model:
  \<^item> JavaScript strings are \<open>string\<close>; case folding and trimming are the ASCII ones.
  \<^item> A value of type \<open>string | null | undefined\<close> is a \<open>string option\<close>.
  \<^item> A \<open>Date\<close>, and the ISO string \<open>toISOString\<close> prints for it, is the instant it denotes:
    the number of milliseconds since the epoch, an \<open>int\<close>.
  \<^item> A thrown \<open>Error\<close> is \<open>Inl message\<close> of a sum type; a normal return is \<open>Inr\<close>.
  \<^item> Counters are \<open>nat\<close>.
\<close>

subsection \<open>Strings\<close>

definition lower_char :: "char \<Rightarrow> char" where
  "lower_char c =
     (case map_of (zip ''ABCDEFGHIJKLMNOPQRSTUVWXYZ'' ''abcdefghijklmnopqrstuvwxyz'') c of
        Some d \<Rightarrow> d
      | None \<Rightarrow> c)"

definition toLowerCase :: "string \<Rightarrow> string" where
  "toLowerCase s = map lower_char s"

text \<open>White space of \<open>String.prototype.trim\<close>, within ASCII: TAB, LF, VT, FF, CR and space.\<close>

definition is_space :: "char \<Rightarrow> bool" where
  "is_space c = (c \<in> set [CHR 0x09, CHR 0x0A, CHR 0x0B, CHR 0x0C, CHR 0x0D, CHR 0x20])"

definition trim :: "string \<Rightarrow> string" where
  "trim s = rev (dropWhile is_space (rev (dropWhile is_space s)))"

fun starts_with :: "string \<Rightarrow> string \<Rightarrow> bool" where
  "starts_with s [] = True"
| "starts_with [] (k # ks) = False"
| "starts_with (c # cs) (k # ks) = (c = k \<and> starts_with cs ks)"

text \<open>\<open>s.includes(k)\<close>: \<open>k\<close> occurs in \<open>s\<close> as a contiguous run.\<close>

fun str_includes :: "string \<Rightarrow> string \<Rightarrow> bool" where
  "str_includes [] k = (k = [])"
| "str_includes (c # cs) k = (starts_with (c # cs) k \<or> str_includes cs k)"

text \<open>JavaScript truthiness of a \<open>string | null | undefined\<close>.\<close>

fun truthy :: "string option \<Rightarrow> bool" where
  "truthy None = False"
| "truthy (Some s) = (s \<noteq> [])"

text \<open>The decimal digits of a number, as template literals print it.\<close>

function digits_of :: "nat \<Rightarrow> string" where
  "digits_of n =
     (if n < 10 then [''0123456789'' ! n]
      else digits_of (n div 10) @ [''0123456789'' ! (n mod 10)])"
  by pat_completeness auto
termination
  by (relation "measure id") auto

declare digits_of.simps [simp del]


text \<open>\<open>join sep xs\<close> is \<open>xs.join(sep)\<close>.\<close>

fun join :: "string \<Rightarrow> string list \<Rightarrow> string" where
  "join sep [] = []"
| "join sep [x] = x"
| "join sep (x # y # ys) = x @ sep @ join sep (y # ys)"

subsection \<open>Labels, keywords, sanitising\<close>

datatype SentimentLabel = Positive | Neutral | Negative

definition labelFromScore :: "real \<Rightarrow> SentimentLabel" where
  "labelFromScore score =
     (if score \<ge> 0.05 then Positive
      else if score \<le> - 0.05 then Negative
      else Neutral)"

definition normalizeKeyword :: "string option \<Rightarrow> string option" where
  "normalizeKeyword keyword =
     (if \<not> truthy keyword then None
      else (let trimmed = toLowerCase (trim (the keyword))
            in if length trimmed > 0 then Some trimmed else None))"

definition matchesKeyword :: "string \<Rightarrow> string option \<Rightarrow> bool" where
  "matchesKeyword text keyword =
     (if \<not> truthy keyword then True
      else str_includes (toLowerCase text) (the keyword))"

text \<open>The argument is \<open>None\<close> when the upstream value is not a string.\<close>

definition sanitizeText :: "string option \<Rightarrow> string" where
  "sanitizeText v =
     (case v of
        None \<Rightarrow> []
      | Some s \<Rightarrow> if s = ''[deleted]'' \<or> s = ''[removed]'' then [] else s)"

subsection \<open>Dates\<close>

type_synonym instant = int

text \<open>
  The civil date of a day number (days since 1970-01-01), in the proleptic Gregorian
  calendar \<open>Date\<close> uses.
\<close>

definition civil_from_days :: "int \<Rightarrow> int \<times> int \<times> int" where
  "civil_from_days z0 =
     (let z = z0 + 719468;
          era = z div 146097;
          doe = z - era * 146097;
          yoe = (doe - doe div 1460 + doe div 36524 - doe div 146096) div 365;
          y = yoe + era * 400;
          doy = doe - (365 * yoe + yoe div 4 - yoe div 100);
          mp = (5 * doy + 2) div 153;
          d = doy - (153 * mp + 2) div 5 + 1;
          m = (if mp < 10 then mp + 3 else mp - 9)
      in (if m \<le> 2 then y + 1 else y, m, d))"

definition pad :: "nat \<Rightarrow> nat \<Rightarrow> string" where
  "pad w n = replicate (w - length (digits_of n)) (CHR ''0'') @ digits_of n"

definition iso_year :: "int \<Rightarrow> string" where
  "iso_year y =
     (if 0 \<le> y \<and> y \<le> 9999 then pad 4 (nat y)
      else (if y < 0 then ''-'' else ''+'') @ pad 6 (nat \<bar>y\<bar>))"

text \<open>
  \<open>utc_date t\<close> is what \<open>updateAggregate\<close> computes from a timestamp: the date is cut to
  UTC midnight (\<open>setUTCHours(0, 0, 0, 0)\<close>), printed by \<open>toISOString\<close> and sliced to its
  first ten characters.
\<close>

definition utc_date :: "instant \<Rightarrow> string" where
  "utc_date t =
     (case civil_from_days (t div 86400000) of
        (y, m, d) \<Rightarrow> take 10 (iso_year y @ ''-'' @ pad 2 (nat m) @ ''-'' @ pad 2 (nat d)))"

text \<open>
  \<open>new Date(ms).toISOString()\<close> throws a \<open>RangeError\<close> when \<open>ms\<close> is outside the range of
  \<open>Date\<close>, which is 8.64e15 milliseconds either side of the epoch.
\<close>

definition toISOString :: "int \<Rightarrow> string + instant" where
  "toISOString ms =
     (if \<bar>ms\<bar> \<le> 8640000000000000 then Inr ms else Inl ''Invalid time value'')"

subsection \<open>The in-memory aggregates\<close>

record AggregateRow =
  subreddit_id :: string
  timeframe :: string
  bucket_start :: string
  positive :: nat
  neutral :: nat
  negative :: nat
  activity_count :: nat

text \<open>
  The \<open>Map<string, AggregateRow>\<close> is an association list in insertion order:
  \<open>get\<close> is \<open>map_of\<close>, and \<open>set\<close> replaces the value of a key in place or appends a new key.
\<close>

type_synonym aggregates = "(string \<times> AggregateRow) list"

definition updateAggregate ::
  "aggregates \<Rightarrow> string \<Rightarrow> string \<Rightarrow> instant \<Rightarrow> SentimentLabel \<Rightarrow> aggregates" where
  "updateAggregate aggs subredditId tf timestamp label =
     (let bucketDate = utc_date timestamp;
          key = subredditId @ '':'' @ bucketDate;
          row = (case map_of aggs key of
                   Some r \<Rightarrow> r
                 | None \<Rightarrow> \<lparr>subreddit_id = subredditId, timeframe = tf,
                            bucket_start = bucketDate, positive = 0, neutral = 0,
                            negative = 0, activity_count = 0\<rparr>);
          row1 = (if label = Positive then row\<lparr>positive := positive row + 1\<rparr>
                  else if label = Negative then row\<lparr>negative := negative row + 1\<rparr>
                  else row\<lparr>neutral := neutral row + 1\<rparr>);
          row2 = row1\<lparr>activity_count := activity_count row1 + 1\<rparr>
      in AList.update key row2 aggs)"




subsection \<open>Upstream data\<close>

text \<open>
  The \<open>data\<close> object of a post in a listing. A field read through \<open>sanitizeText\<close> or a
  \<open>typeof\<close> test is \<open>None\<close> when it does not have the type tested for;
  \<open>p_created_utc\<close> is \<open>Number(data.created_utc)\<close>, in whole seconds, and \<open>None\<close> when that is
  not finite; \<open>p_stickied\<close> is the truthiness of \<open>data.stickied\<close>.
\<close>

record post_data =
  p_id :: string
  p_title :: "string option"
  p_selftext :: "string option"
  p_author :: "string option"
  p_created_utc :: "int option"
  p_score :: "int option"
  p_num_comments :: "int option"
  p_permalink :: "string option"
  p_stickied :: bool
  p_removed_by_category :: "string option"

text \<open>A child of a listing; \<open>pc_data\<close> is \<open>None\<close> when \<open>child?.data\<close> is falsy.\<close>

record post_child =
  pc_kind :: string
  pc_data :: "post_data option"

text \<open>
  The \<open>data\<close> object of a comment. The upstream sends \<open>stickied\<close> for comments too; the
  pipeline keeps the whole object as \<open>raw_json\<close>.
\<close>

record comment_data =
  c_id :: string
  c_author :: "string option"
  c_created_utc :: "int option"
  c_body :: "string option"
  c_stickied :: bool

record comment_child =
  cc_kind :: string
  cc_data :: "comment_data option"

text \<open>
  A parsed response body: a listing object with its children, the two-element array of a
  comment thread with the children of its second element, or any other JSON value.
\<close>

datatype payload = Listing "post_child list" | Thread "comment_child list" | Opaque

fun listing_children :: "payload \<Rightarrow> post_child list" where
  "listing_children (Listing cs) = cs"
| "listing_children other = []"

fun thread_children :: "payload \<Rightarrow> comment_child list" where
  "thread_children (Thread cs) = cs"
| "thread_children other = []"

text \<open>An HTTP response; \<open>body_json\<close> is \<open>None\<close> when the body is not JSON.\<close>

record response =
  status :: nat
  body_text :: string
  body_json :: "payload option"

definition ok :: "nat \<Rightarrow> bool" where
  "ok st = (200 \<le> st \<and> st \<le> 299)"

text \<open>
  The response of the token endpoint: its status, its text, and the fields of the parsed
  text (all \<open>None\<close> when the text does not parse).
\<close>

record token_response =
  tr_status :: nat
  tr_text :: string
  tr_error_description :: "string option"
  tr_error :: "string option"
  tr_access_token :: "string option"

datatype GrantType = password | client_credentials

fun grant_name :: "GrantType \<Rightarrow> string" where
  "grant_name password = ''password''"
| "grant_name client_credentials = ''client_credentials''"

subsection \<open>The platform and the world\<close>

record environment =
  REDDIT_CLIENT_ID :: "string option"
  REDDIT_CLIENT_SECRET :: "string option"
  REDDIT_USERNAME :: "string option"
  REDDIT_PASSWORD :: "string option"
  SUPABASE_URL :: "string option"
  SUPABASE_SERVICE_ROLE_KEY :: "string option"
  SERVICE_ROLE_KEY :: "string option"

text \<open>
  What the edge function does not control: the environment variables; the upstream's answer
  to the \<open>n\<close>-th GET, given the URL and the bearer token (\<open>Inl\<close> when \<open>fetch\<close> itself
  rejects); the token endpoint's answer to the \<open>n\<close>-th POST; the compound score of the
  sentiment analyser; and the error, if any, of the \<open>n\<close>-th operation on the store.
\<close>

record platform =
  env :: environment
  http_get :: "string \<Rightarrow> string \<Rightarrow> nat \<Rightarrow> string + response"
  token_post :: "GrantType \<Rightarrow> nat \<Rightarrow> string + token_response"
  polarity :: "string \<Rightarrow> real"
  store_fault :: "nat \<Rightarrow> string option"

text \<open>
  The mutable state outside the store: the number of GETs and of token requests issued,
  \<open>tokenManager.value\<close>, the \<open>delay\<close> calls made, the time (which the model advances
  by the delays only), and the number of operations sent to the store.
\<close>

record world =
  requests :: nat
  token_requests :: nat
  token :: string
  slept :: "nat list"
  clock :: instant
  store_ops :: nat

definition delay :: "nat \<Rightarrow> world \<Rightarrow> world" where
  "delay ms w = w\<lparr>slept := slept w @ [ms], clock := clock w + int ms\<rparr>"

definition REDDIT_API_BASE :: string where
  "REDDIT_API_BASE = ''https://oauth.reddit.com''"

definition MAX_POSTS :: nat where "MAX_POSTS = 20"
definition MAX_COMMENTS :: nat where "MAX_COMMENTS = 10"
definition RATE_LIMIT_MS :: nat where "RATE_LIMIT_MS = 900"

subsection \<open>Access tokens\<close>

definition requestRedditAccessToken ::
  "platform \<Rightarrow> GrantType \<Rightarrow> world \<Rightarrow> (string + string) \<times> world" where
  "requestRedditAccessToken pf grantType w =
     (if \<not> truthy (REDDIT_CLIENT_ID (env pf)) \<or> \<not> truthy (REDDIT_CLIENT_SECRET (env pf))
      then (Inl ''Reddit client credentials are not configured.'', w)
      else if grantType = password \<and>
              (\<not> truthy (REDDIT_USERNAME (env pf)) \<or> \<not> truthy (REDDIT_PASSWORD (env pf)))
      then (Inl ''Reddit username/password are required for password grant.'', w)
      else
        (let w1 = w\<lparr>token_requests := token_requests w + 1\<rparr>
         in case token_post pf grantType (token_requests w) of
              Inl e \<Rightarrow> (Inl e, w1)
            | Inr r \<Rightarrow>
                if \<not> ok (tr_status r) then
                  (let reason =
                         (case tr_error_description r of
                            Some d \<Rightarrow> d
                          | None \<Rightarrow> (case tr_error r of Some e \<Rightarrow> e | None \<Rightarrow> tr_text r))
                   in (Inl (''Reddit auth failed ('' @ digits_of (tr_status r) @ '') [''
                             @ grant_name grantType @ '']: '' @ reason), w1))
                else if \<not> truthy (tr_access_token r) then
                  (Inl (''Reddit auth response missing access token [''
                         @ grant_name grantType @ '']: '' @ tr_text r), w1)
                else (Inr (the (tr_access_token r)), w1)))"

definition fetchRedditAccessToken :: "platform \<Rightarrow> world \<Rightarrow> (string + string) \<times> world" where
  "fetchRedditAccessToken pf w =
     (if truthy (REDDIT_USERNAME (env pf)) \<and> truthy (REDDIT_PASSWORD (env pf)) then
        (case requestRedditAccessToken pf password w of
           (Inr t, w1) \<Rightarrow> (Inr t, w1)
         | (Inl message, w1) \<Rightarrow>
             if \<not> str_includes message ''unauthorized_client'' then (Inl message, w1)
             else requestRedditAccessToken pf client_credentials w1)
      else requestRedditAccessToken pf client_credentials w)"

subsection \<open>The rate-limited client\<close>

text \<open>
  \<open>fetchJson\<close> with the \<open>refresh\<close> function of its token manager; \<open>tokenManager.value\<close> is
  the \<open>token\<close> of the world. The result is the parsed body, or the message of the error
  thrown.
\<close>

function fetchJson ::
  "platform \<Rightarrow> (world \<Rightarrow> (string + string) \<times> world) \<Rightarrow> string \<Rightarrow> nat \<Rightarrow> world
     \<Rightarrow> (string + payload) \<times> world" where
  "fetchJson pf refresh url attempt w =
     (let w1 = w\<lparr>requests := requests w + 1\<rparr>
      in case http_get pf url (token w) (requests w) of
           Inl e \<Rightarrow> (Inl e, w1)
         | Inr resp \<Rightarrow>
             if status resp = 401 \<and> attempt < 3 then
               (case refresh w1 of
                  (Inl e, w2) \<Rightarrow> (Inl e, w2)
                | (Inr t, w2) \<Rightarrow> fetchJson pf refresh url (attempt + 1) (w2\<lparr>token := t\<rparr>))
             else if (status resp = 429 \<or> status resp = 403) \<and> attempt < 3 then
               fetchJson pf refresh url (attempt + 1) (delay (RATE_LIMIT_MS * attempt) w1)
             else if \<not> ok (status resp) then
               (Inl (''Reddit request failed ('' @ digits_of (status resp) @ ''): '' @ url
                      @ '' :: '' @ body_text resp), w1)
             else
               (case body_json resp of
                  None \<Rightarrow> (Inl ''Unexpected token in JSON'', w1)
                | Some j \<Rightarrow> (Inr j, w1)))"
  by pat_completeness auto
termination
  by (relation "measure (\<lambda>(pf, refresh, url, attempt, w). 3 - attempt)") auto

declare fetchJson.simps [simp del]

subsection \<open>Draft records\<close>

record SubredditRow =
  sr_id :: string
  sr_name :: string

record PostRecordDraft =
  pr_reddit_id :: string
  pr_subreddit_id :: string
  pr_title :: string
  pr_author :: "string option"
  pr_posted_at :: instant
  pr_score :: "int option"
  pr_comment_count :: "int option"
  pr_permalink :: "string option"
  pr_raw_json :: post_data
  pr_updated_at :: instant

text \<open>\<open>PostSentimentDraft\<close> and \<open>CommentSentimentDraft\<close> have the same fields.\<close>

record SentimentDraft =
  sd_reddit_id :: string
  sd_compound :: real
  sd_label :: SentimentLabel
  sd_scored_at :: instant
  sd_posted_at :: instant
  sd_subreddit_id :: string

record CommentRecordDraft =
  cr_reddit_id :: string
  cr_post_reddit_id :: string
  cr_author :: "string option"
  cr_posted_at :: instant
  cr_body :: string
  cr_raw_json :: comment_data

text \<open>
  What \<open>processSubreddit\<close> builds: its four arrays of drafts, and the aggregates and the
  warnings it shares with the whole run.
\<close>

record run_state =
  postRecords :: "PostRecordDraft list"
  postSentiments :: "SentimentDraft list"
  commentRecords :: "CommentRecordDraft list"
  commentSentiments :: "SentimentDraft list"
  aggregates :: aggregates
  errors :: "string list"

text \<open>The template literal of the permalink.\<close>

definition reddit_link :: "string \<Rightarrow> string" where
  "reddit_link permalink = ''https://reddit.com'' @ permalink"

text \<open>\<open>s || null\<close>.\<close>

definition or_null :: "string \<Rightarrow> string option" where
  "or_null s = (if s = [] then None else Some s)"

subsection \<open>One community\<close>

text \<open>The body of the loop over the comments of a post.\<close>

definition comment_body ::
  "platform \<Rightarrow> SubredditRow \<Rightarrow> string \<Rightarrow> int \<Rightarrow> string option \<Rightarrow> post_data
     \<Rightarrow> comment_child \<Rightarrow> run_state \<Rightarrow> world \<Rightarrow> string + run_state" where
  "comment_body pf subreddit tf sinceEpoch keyword data commentChild st w =
     (if cc_kind commentChild \<noteq> ''t1'' then Inr st
      else case cc_data commentChild of
        None \<Rightarrow> Inr st
      | Some commentData \<Rightarrow>
          (case c_created_utc commentData of
             None \<Rightarrow> Inr st
           | Some commentCreated \<Rightarrow>
               if commentCreated < sinceEpoch then Inr st
               else
                 (let body = sanitizeText (c_body commentData)
                  in if body = [] then Inr st
                     else if truthy keyword \<and> \<not> matchesKeyword body keyword then Inr st
                     else
                       (case toISOString (commentCreated * 1000) of
                          Inl e \<Rightarrow> Inl e
                        | Inr postedAtIso \<Rightarrow>
                            (let compound = polarity pf body;
                                 label = labelFromScore compound;
                                 scoredAt = clock w
                             in Inr (st\<lparr>commentRecords := commentRecords st @
                                          [\<lparr>cr_reddit_id = c_id commentData,
                                            cr_post_reddit_id = p_id data,
                                            cr_author = or_null (sanitizeText (c_author commentData)),
                                            cr_posted_at = postedAtIso,
                                            cr_body = body,
                                            cr_raw_json = commentData\<rparr>],
                                        commentSentiments := commentSentiments st @
                                          [\<lparr>sd_reddit_id = c_id commentData,
                                            sd_compound = compound,
                                            sd_label = label,
                                            sd_scored_at = scoredAt,
                                            sd_posted_at = postedAtIso,
                                            sd_subreddit_id = sr_id subreddit\<rparr>],
                                        aggregates :=
                                          updateAggregate (aggregates st) (sr_id subreddit) tf
                                            postedAtIso label\<rparr>))))))"

fun comment_loop ::
  "platform \<Rightarrow> SubredditRow \<Rightarrow> string \<Rightarrow> int \<Rightarrow> string option \<Rightarrow> post_data
     \<Rightarrow> comment_child list \<Rightarrow> run_state \<Rightarrow> world \<Rightarrow> string + run_state" where
  "comment_loop pf subreddit tf sinceEpoch keyword data [] st w = Inr st"
| "comment_loop pf subreddit tf sinceEpoch keyword data (c # cs) st w =
     (case comment_body pf subreddit tf sinceEpoch keyword data c st w of
        Inl e \<Rightarrow> Inl e
      | Inr st1 \<Rightarrow> comment_loop pf subreddit tf sinceEpoch keyword data cs st1 w)"

definition commentsUrl :: "string \<Rightarrow> string" where
  "commentsUrl post_id =
     REDDIT_API_BASE @ ''/comments/'' @ post_id @ ''?depth=1&limit='' @ digits_of MAX_COMMENTS
       @ ''&raw_json=1''"

definition postsUrl :: "string \<Rightarrow> string" where
  "postsUrl name =
     REDDIT_API_BASE @ ''/r/'' @ name @ ''/new?limit='' @ digits_of MAX_POSTS @ ''&raw_json=1''"

definition comments_warning :: "SubredditRow \<Rightarrow> string \<Rightarrow> string \<Rightarrow> string" where
  "comments_warning subreddit post_id message =
     ''['' @ sr_name subreddit @ ''] Failed to fetch comments for '' @ post_id @ '': '' @ message"

definition posts_warning :: "SubredditRow \<Rightarrow> string \<Rightarrow> string" where
  "posts_warning subreddit message =
     ''['' @ sr_name subreddit @ ''] Failed to fetch posts: '' @ message"

text \<open>
  The body of the loop over the children of a listing; \<open>continue\<close> returns the state
  unchanged. \<open>nowIso\<close> is read once before the loop.
\<close>

definition post_body ::
  "platform \<Rightarrow> (world \<Rightarrow> (string + string) \<times> world) \<Rightarrow> SubredditRow \<Rightarrow> string \<Rightarrow> int
     \<Rightarrow> string option \<Rightarrow> instant \<Rightarrow> post_child \<Rightarrow> run_state \<Rightarrow> world
     \<Rightarrow> (string + run_state) \<times> world" where
  "post_body pf refresh subreddit tf sinceEpoch keyword nowIso child st w =
     (case pc_data child of
        None \<Rightarrow> (Inr st, w)
      | Some data \<Rightarrow>
          if pc_kind child \<noteq> ''t3'' then (Inr st, w)
          else if p_stickied data \<or> truthy (p_removed_by_category data) then (Inr st, w)
          else
            (case p_created_utc data of
               None \<Rightarrow> (Inr st, w)
             | Some createdUtc \<Rightarrow>
                 if createdUtc < sinceEpoch then (Inr st, w)
                 else
                   (let title = sanitizeText (p_title data);
                        selfText = sanitizeText (p_selftext data);
                        combinedForKeyword = trim (title @ [CHR 0x0A] @ selfText)
                    in if truthy keyword \<and> \<not> matchesKeyword combinedForKeyword keyword
                       then (Inr st, w)
                       else
                         (case toISOString (createdUtc * 1000) of
                            Inl e \<Rightarrow> (Inl e, w)
                          | Inr posted \<Rightarrow>
                              (let postRecord =
                                     \<lparr>pr_reddit_id = p_id data,
                                      pr_subreddit_id = sr_id subreddit,
                                      pr_title = title,
                                      pr_author = or_null (sanitizeText (p_author data)),
                                      pr_posted_at = posted,
                                      pr_score = p_score data,
                                      pr_comment_count = p_num_comments data,
                                      pr_permalink =
                                        map_option reddit_link (p_permalink data),
                                      pr_raw_json = data,
                                      pr_updated_at = nowIso\<rparr>;
                                   st1 = st\<lparr>postRecords := postRecords st @ [postRecord]\<rparr>;
                                   st2 =
                                     (if length combinedForKeyword > 0 then
                                        (let compound = polarity pf combinedForKeyword;
                                             label = labelFromScore compound;
                                             scoredAt = clock w
                                         in st1\<lparr>postSentiments := postSentiments st1 @
                                                  [\<lparr>sd_reddit_id = p_id data,
                                                    sd_compound = compound,
                                                    sd_label = label,
                                                    sd_scored_at = scoredAt,
                                                    sd_posted_at = posted,
                                                    sd_subreddit_id = sr_id subreddit\<rparr>],
                                                aggregates :=
                                                  updateAggregate (aggregates st1)
                                                    (sr_id subreddit) tf posted label\<rparr>)
                                      else st1)
                               in case fetchJson pf refresh (commentsUrl (p_id data)) 1 w of
                                    (Inl message, w1) \<Rightarrow>
                                      (Inr (st2\<lparr>errors := errors st2 @
                                              [comments_warning subreddit (p_id data) message]\<rparr>),
                                       delay RATE_LIMIT_MS w1)
                                  | (Inr commentsListing, w1) \<Rightarrow>
                                      (case comment_loop pf subreddit tf sinceEpoch keyword data
                                              (thread_children commentsListing) st2 w1 of
                                         Inl e \<Rightarrow> (Inl e, w1)
                                       | Inr st3 \<Rightarrow> (Inr st3, delay RATE_LIMIT_MS w1)))))))"

fun post_loop ::
  "platform \<Rightarrow> (world \<Rightarrow> (string + string) \<times> world) \<Rightarrow> SubredditRow \<Rightarrow> string \<Rightarrow> int
     \<Rightarrow> string option \<Rightarrow> instant \<Rightarrow> post_child list \<Rightarrow> run_state \<Rightarrow> world
     \<Rightarrow> (string + run_state) \<times> world" where
  "post_loop pf refresh subreddit tf sinceEpoch keyword nowIso [] st w = (Inr st, w)"
| "post_loop pf refresh subreddit tf sinceEpoch keyword nowIso (child # rest) st w =
     (case post_body pf refresh subreddit tf sinceEpoch keyword nowIso child st w of
        (Inl e, w1) \<Rightarrow> (Inl e, w1)
      | (Inr st1, w1) \<Rightarrow> post_loop pf refresh subreddit tf sinceEpoch keyword nowIso rest st1 w1)"

text \<open>
  \<open>processSubreddit\<close>. The result carries the four arrays of this community together with
  the shared aggregates and warnings as the call leaves them.
\<close>

definition processSubreddit ::
  "platform \<Rightarrow> (world \<Rightarrow> (string + string) \<times> world) \<Rightarrow> SubredditRow \<Rightarrow> string \<Rightarrow> int
     \<Rightarrow> string option \<Rightarrow> aggregates \<Rightarrow> string list \<Rightarrow> world
     \<Rightarrow> (string + run_state) \<times> world" where
  "processSubreddit pf refresh subreddit tf sinceEpoch keyword aggs errs w =
     (let st0 = \<lparr>postRecords = [], postSentiments = [], commentRecords = [],
                 commentSentiments = [], aggregates = aggs, errors = errs\<rparr>
      in case fetchJson pf refresh (postsUrl (sr_name subreddit)) 1 w of
           (Inl message, w1) \<Rightarrow>
             (Inr (st0\<lparr>errors := errs @ [posts_warning subreddit message]\<rparr>), w1)
         | (Inr listing, w1) \<Rightarrow>
             post_loop pf refresh subreddit tf sinceEpoch keyword (clock w1)
               (listing_children listing) st0 w1)"

subsection \<open>The store\<close>

text \<open>
  The store is an external service. Its tables are modelled with the operations the
  pipeline uses: insert, upsert by unique key, select by a set of unique keys, delete by a
  set of foreign keys. Internal ids are numbers handed out by the store. Tables with a
  unique key are maps from that key. Every operation may fail: the error of the \<open>n\<close>-th
  operation sent to the store is \<open>store_fault pf n\<close>, and a failed operation changes
  nothing in the store.
\<close>

record PostRow =
  po_id :: nat
  po_cols :: PostRecordDraft

text \<open>An element of \<open>commentRows\<close>: a comment draft re-keyed to the internal id of its post.\<close>

record CommentRowDraft =
  cm_reddit_id :: string
  cm_post_id :: nat
  cm_author :: "string option"
  cm_posted_at :: instant
  cm_body :: string
  cm_raw_json :: comment_data

record CommentRow =
  co_id :: nat
  co_cols :: CommentRowDraft

text \<open>\<open>source_type\<close> together with \<open>post_id\<close> or \<open>comment_id\<close>.\<close>

datatype subject = PostSubject nat | CommentSubject nat

record SentimentRow =
  sn_subject :: subject
  sn_compound :: real
  sn_label :: SentimentLabel
  sn_scored_at :: instant

record JobRow =
  job_id :: nat
  job_timeframe :: string
  job_keyword :: "string option"
  job_trigger_source :: string
  job_status :: string
  job_started_at :: "instant option"
  job_finished_at :: "instant option"
  job_posts_processed :: nat
  job_comments_processed :: nat
  job_sentiments_processed :: nat
  job_duration_ms :: "int option"
  job_error :: "string option"

record store =
  subreddits :: "SubredditRow list"
  posts :: "string \<rightharpoonup> PostRow"
  comments :: "string \<rightharpoonup> CommentRow"
  sentiments :: "SentimentRow list"
  daily :: "(string \<times> string \<times> string) \<rightharpoonup> AggregateRow"
  refresh_jobs :: "JobRow list"
  next_id :: nat

text \<open>A write: its error, or its effect on the store.\<close>

definition store_write ::
  "platform \<Rightarrow> (store \<Rightarrow> store) \<Rightarrow> world \<Rightarrow> store \<Rightarrow> string option \<times> world \<times> store" where
  "store_write pf effect w db =
     (case store_fault pf (store_ops w) of
        Some e \<Rightarrow> (Some e, w\<lparr>store_ops := store_ops w + 1\<rparr>, db)
      | None \<Rightarrow> (None, w\<lparr>store_ops := store_ops w + 1\<rparr>, effect db))"

text \<open>A read: its error, or its rows.\<close>

definition store_read ::
  "platform \<Rightarrow> (store \<Rightarrow> 'a) \<Rightarrow> world \<Rightarrow> store \<Rightarrow> (string + 'a) \<times> world" where
  "store_read pf rows w db =
     (case store_fault pf (store_ops w) of
        Some e \<Rightarrow> (Inl e, w\<lparr>store_ops := store_ops w + 1\<rparr>)
      | None \<Rightarrow> (Inr (rows db), w\<lparr>store_ops := store_ops w + 1\<rparr>))"

text \<open>\<open>if (xs.length > 0) { ... }\<close> around a write of \<open>xs\<close>.\<close>

definition when_nonempty ::
  "'a list \<Rightarrow> ('a list \<Rightarrow> world \<Rightarrow> store \<Rightarrow> string option \<times> world \<times> store) \<Rightarrow> world \<Rightarrow> store
     \<Rightarrow> string option \<times> world \<times> store" where
  "when_nonempty xs write w db = (if length xs > 0 then write xs w db else (None, w, db))"

definition select_subreddits :: "platform \<Rightarrow> world \<Rightarrow> store \<Rightarrow> (string + SubredditRow list) \<times> world" where
  "select_subreddits pf = store_read pf subreddits"

definition upsert_post :: "PostRecordDraft \<Rightarrow> store \<Rightarrow> store" where
  "upsert_post r db =
     (case posts db (pr_reddit_id r) of
        Some row \<Rightarrow> db\<lparr>posts := (posts db)(pr_reddit_id r \<mapsto> row\<lparr>po_cols := r\<rparr>)\<rparr>
      | None \<Rightarrow>
          db\<lparr>posts := (posts db)(pr_reddit_id r \<mapsto> \<lparr>po_id = next_id db, po_cols = r\<rparr>),
             next_id := next_id db + 1\<rparr>)"

definition upsert_posts ::
  "platform \<Rightarrow> PostRecordDraft list \<Rightarrow> world \<Rightarrow> store \<Rightarrow> string option \<times> world \<times> store" where
  "upsert_posts pf rs = store_write pf (fold upsert_post rs)"

text \<open>\<open>select("id, reddit_id").in("reddit_id", ids)\<close>: the rows found, as pairs.\<close>

definition stored_posts :: "string list \<Rightarrow> store \<Rightarrow> (string \<times> nat) list" where
  "stored_posts ids db =
     List.map_filter (\<lambda>k. map_option (\<lambda>row. (k, po_id row)) (posts db k)) ids"

definition select_posts ::
  "platform \<Rightarrow> string list \<Rightarrow> world \<Rightarrow> store \<Rightarrow> (string + (string \<times> nat) list) \<times> world" where
  "select_posts pf ids = store_read pf (stored_posts ids)"

definition upsert_comment :: "CommentRowDraft \<Rightarrow> store \<Rightarrow> store" where
  "upsert_comment r db =
     (case comments db (cm_reddit_id r) of
        Some row \<Rightarrow> db\<lparr>comments := (comments db)(cm_reddit_id r \<mapsto> row\<lparr>co_cols := r\<rparr>)\<rparr>
      | None \<Rightarrow>
          db\<lparr>comments := (comments db)(cm_reddit_id r \<mapsto> \<lparr>co_id = next_id db, co_cols = r\<rparr>),
             next_id := next_id db + 1\<rparr>)"

definition upsert_comments ::
  "platform \<Rightarrow> CommentRowDraft list \<Rightarrow> world \<Rightarrow> store \<Rightarrow> string option \<times> world \<times> store" where
  "upsert_comments pf rs = store_write pf (fold upsert_comment rs)"

definition stored_comments :: "string list \<Rightarrow> store \<Rightarrow> (string \<times> nat) list" where
  "stored_comments ids db =
     List.map_filter (\<lambda>k. map_option (\<lambda>row. (k, co_id row)) (comments db k)) ids"

definition select_comments ::
  "platform \<Rightarrow> string list \<Rightarrow> world \<Rightarrow> store \<Rightarrow> (string + (string \<times> nat) list) \<times> world" where
  "select_comments pf ids = store_read pf (stored_comments ids)"

text \<open>\<open>delete().in("post_id", ids)\<close> and \<open>delete().in("comment_id", ids)\<close> on \<open>sentiments\<close>.\<close>

definition without_subjects :: "subject list \<Rightarrow> store \<Rightarrow> store" where
  "without_subjects subjects db =
     db\<lparr>sentiments := filter (\<lambda>r. sn_subject r \<notin> set subjects) (sentiments db)\<rparr>"

definition delete_sentiments ::
  "platform \<Rightarrow> subject list \<Rightarrow> world \<Rightarrow> store \<Rightarrow> string option \<times> world \<times> store" where
  "delete_sentiments pf subjects = store_write pf (without_subjects subjects)"

definition with_sentiments :: "SentimentRow list \<Rightarrow> store \<Rightarrow> store" where
  "with_sentiments rows db = db\<lparr>sentiments := sentiments db @ rows\<rparr>"

definition insert_sentiments ::
  "platform \<Rightarrow> SentimentRow list \<Rightarrow> world \<Rightarrow> store \<Rightarrow> string option \<times> world \<times> store" where
  "insert_sentiments pf rows = store_write pf (with_sentiments rows)"

text \<open>\<open>delete().eq("timeframe", tf).in("subreddit_id", ids)\<close> on \<open>subreddit_sentiment_daily\<close>.\<close>

definition without_daily :: "string \<Rightarrow> string list \<Rightarrow> store \<Rightarrow> store" where
  "without_daily tf ids db =
     db\<lparr>daily := (\<lambda>(s, t, b). if t = tf \<and> s \<in> set ids then None else daily db (s, t, b))\<rparr>"

definition delete_daily ::
  "platform \<Rightarrow> string \<Rightarrow> string list \<Rightarrow> world \<Rightarrow> store \<Rightarrow> string option \<times> world \<times> store" where
  "delete_daily pf tf ids = store_write pf (without_daily tf ids)"

definition upsert_daily_row :: "AggregateRow \<Rightarrow> store \<Rightarrow> store" where
  "upsert_daily_row r db =
     db\<lparr>daily := (daily db)((subreddit_id r, timeframe r, bucket_start r) \<mapsto> r)\<rparr>"

definition upsert_daily ::
  "platform \<Rightarrow> AggregateRow list \<Rightarrow> world \<Rightarrow> store \<Rightarrow> string option \<times> world \<times> store" where
  "upsert_daily pf rows = store_write pf (fold upsert_daily_row rows)"

text \<open>\<open>insert(...).select("id").single()\<close> on \<open>refresh_jobs\<close>.\<close>

definition queued_job :: "nat \<Rightarrow> string \<Rightarrow> string option \<Rightarrow> JobRow" where
  "queued_job i tf keyword =
     \<lparr>job_id = i, job_timeframe = tf, job_keyword = keyword,
      job_trigger_source = ''edge_function'', job_status = ''queued'',
      job_started_at = None, job_finished_at = None, job_posts_processed = 0,
      job_comments_processed = 0, job_sentiments_processed = 0, job_duration_ms = None,
      job_error = None\<rparr>"

definition insert_job ::
  "platform \<Rightarrow> string \<Rightarrow> string option \<Rightarrow> world \<Rightarrow> store \<Rightarrow> (string + nat) \<times> world \<times> store" where
  "insert_job pf tf keyword w db =
     (case store_write pf
             (\<lambda>d. d\<lparr>refresh_jobs := refresh_jobs d @ [queued_job (next_id d) tf keyword],
                     next_id := next_id d + 1\<rparr>) w db of
        (Some e, w1, db1) \<Rightarrow> (Inl e, w1, db1)
      | (None, w1, db1) \<Rightarrow> (Inr (next_id db), w1, db1))"

text \<open>\<open>updateJob\<close>: an error of the update is logged and otherwise ignored.\<close>

definition updateJob ::
  "platform \<Rightarrow> nat \<Rightarrow> (JobRow \<Rightarrow> JobRow) \<Rightarrow> world \<Rightarrow> store \<Rightarrow> world \<times> store" where
  "updateJob pf jobId patch w db =
     (case store_write pf
             (\<lambda>d. d\<lparr>refresh_jobs :=
                       map (\<lambda>j. if job_id j = jobId then patch j else j) (refresh_jobs d)\<rparr>)
             w db of
        (e, w1, db1) \<Rightarrow> (w1, db1))"

subsection \<open>The whole run\<close>

definition TIMEFRAME_CONFIG :: "(string \<times> int) list" where
  "TIMEFRAME_CONFIG = [(''24h'', 24), (''7d'', 7 * 24), (''30d'', 30 * 24)]"

text \<open>
  The cutoff: the current time with the hours of the timeframe taken off, in whole seconds
  (\<open>Math.floor\<close>).
\<close>

definition cutoff :: "int \<Rightarrow> instant \<Rightarrow> int" where
  "cutoff hours now = (now - hours * 3600000) div 1000"

text \<open>
  The loop over the communities. The accumulator holds \<open>allPostRecords\<close>,
  \<open>allPostSentiments\<close>, \<open>allCommentDrafts\<close> and \<open>allCommentSentiments\<close> in the four arrays
  of a \<open>run_state\<close>, with the shared aggregates and warnings.
\<close>

fun subreddit_loop ::
  "platform \<Rightarrow> (world \<Rightarrow> (string + string) \<times> world) \<Rightarrow> string \<Rightarrow> int \<Rightarrow> string option
     \<Rightarrow> SubredditRow list \<Rightarrow> run_state \<Rightarrow> world \<Rightarrow> (string + run_state) \<times> world" where
  "subreddit_loop pf refresh tf sinceEpoch keyword [] acc w = (Inr acc, w)"
| "subreddit_loop pf refresh tf sinceEpoch keyword (subreddit # rest) acc w =
     (case processSubreddit pf refresh subreddit tf sinceEpoch keyword (aggregates acc)
             (errors acc) w of
        (Inl e, w1) \<Rightarrow> (Inl e, w1)
      | (Inr result, w1) \<Rightarrow>
          subreddit_loop pf refresh tf sinceEpoch keyword rest
            (acc\<lparr>postRecords := postRecords acc @ postRecords result,
                 postSentiments := postSentiments acc @ postSentiments result,
                 commentRecords := commentRecords acc @ commentRecords result,
                 commentSentiments := commentSentiments acc @ commentSentiments result,
                 aggregates := aggregates result,
                 errors := errors result\<rparr>) w1)"

record ProcessResult =
  postsProcessed :: nat
  commentsProcessed :: nat
  sentimentsInserted :: nat
  aggregatesUpserted :: nat
  result_errors :: "string list"

text \<open>\<open>commentRows\<close>: the drafts whose post resolves in \<open>postIdMap\<close>.\<close>

definition commentRows_of :: "(string \<rightharpoonup> nat) \<Rightarrow> CommentRecordDraft list \<Rightarrow> CommentRowDraft list" where
  "commentRows_of postIdMap drafts =
     List.map_filter
       (\<lambda>draft. map_option
          (\<lambda>postId. \<lparr>cm_reddit_id = cr_reddit_id draft, cm_post_id = postId,
                      cm_author = cr_author draft, cm_posted_at = cr_posted_at draft,
                      cm_body = cr_body draft, cm_raw_json = cr_raw_json draft\<rparr>)
          (postIdMap (cr_post_reddit_id draft)))
       drafts"

text \<open>\<open>postSentimentRows\<close> and \<open>commentSentimentRows\<close>: the drafts whose subject resolves.\<close>

definition sentimentRows_of ::
  "(nat \<Rightarrow> subject) \<Rightarrow> (string \<rightharpoonup> nat) \<Rightarrow> SentimentDraft list \<Rightarrow> SentimentRow list" where
  "sentimentRows_of source idMap drafts =
     List.map_filter
       (\<lambda>draft. map_option
          (\<lambda>i. \<lparr>sn_subject = source i, sn_compound = sd_compound draft,
                 sn_label = sd_label draft, sn_scored_at = sd_scored_at draft\<rparr>)
          (idMap (sd_reddit_id draft)))
       drafts"

text \<open>
  The flush of \<open>processRefresh\<close>, from \<open>uniquePostRedditIds\<close> to the returned result. The
  first error of the store ends it with the message the code throws.
\<close>

definition flush ::
  "platform \<Rightarrow> string \<Rightarrow> run_state \<Rightarrow> world \<Rightarrow> store
     \<Rightarrow> (string + ProcessResult) \<times> world \<times> store" where
  "flush pf tf acc w db =
     (let allPostRecords = postRecords acc;
          uniquePostRedditIds = remdups (map pr_reddit_id allPostRecords)
      in case when_nonempty allPostRecords (upsert_posts pf) w db of
           (Some e, w1, db1) \<Rightarrow> (Inl (''Failed to upsert posts: '' @ e), w1, db1)
         | (None, w1, db1) \<Rightarrow>
      (case select_posts pf uniquePostRedditIds w1 db1 of
           (Inl e, w2) \<Rightarrow> (Inl (''Failed to load stored posts: '' @ e), w2, db1)
         | (Inr storedPosts, w2) \<Rightarrow>
      (let postIdMap = map_of storedPosts;
           commentRows = commentRows_of postIdMap (commentRecords acc);
           uniqueCommentIds = remdups (map cm_reddit_id commentRows)
       in case when_nonempty commentRows (upsert_comments pf) w2 db1 of
           (Some e, w3, db3) \<Rightarrow> (Inl (''Failed to upsert comments: '' @ e), w3, db3)
         | (None, w3, db3) \<Rightarrow>
      (case select_comments pf uniqueCommentIds w3 db3 of
           (Inl e, w4) \<Rightarrow> (Inl (''Failed to load stored comments: '' @ e), w4, db3)
         | (Inr storedComments, w4) \<Rightarrow>
      (let commentIdMap = map_of storedComments;
           postSentimentRows = sentimentRows_of PostSubject postIdMap (postSentiments acc);
           commentSentimentRows =
             sentimentRows_of CommentSubject commentIdMap (commentSentiments acc);
           postIdsForCleanup = remdups (map sn_subject postSentimentRows);
           commentIdsForCleanup = remdups (map sn_subject commentSentimentRows)
       in case when_nonempty postIdsForCleanup (delete_sentiments pf) w4 db3 of
           (Some e, w5, db5) \<Rightarrow>
             (Inl (''Failed to clean existing post sentiments: '' @ e), w5, db5)
         | (None, w5, db5) \<Rightarrow>
      (case when_nonempty commentIdsForCleanup (delete_sentiments pf) w5 db5 of
           (Some e, w6, db6) \<Rightarrow>
             (Inl (''Failed to clean existing comment sentiments: '' @ e), w6, db6)
         | (None, w6, db6) \<Rightarrow>
      (case when_nonempty postSentimentRows (insert_sentiments pf) w6 db6 of
           (Some e, w7, db7) \<Rightarrow> (Inl (''Failed to insert post sentiments: '' @ e), w7, db7)
         | (None, w7, db7) \<Rightarrow>
      (case when_nonempty commentSentimentRows (insert_sentiments pf) w7 db7 of
           (Some e, w8, db8) \<Rightarrow> (Inl (''Failed to insert comment sentiments: '' @ e), w8, db8)
         | (None, w8, db8) \<Rightarrow>
      (let aggregateRows = map snd (aggregates acc);
           result = \<lparr>postsProcessed = length allPostRecords,
                     commentsProcessed = length commentRows,
                     sentimentsInserted =
                       length postSentimentRows + length commentSentimentRows,
                     aggregatesUpserted = length aggregateRows,
                     result_errors = errors acc\<rparr>
       in if length aggregateRows > 0 then
            (let subredditsProcessed = remdups (map subreddit_id aggregateRows)
             in case delete_daily pf tf subredditsProcessed w8 db8 of
                  (Some e, w9, db9) \<Rightarrow>
                    (Inl (''Failed to clean sentiment aggregates: '' @ e), w9, db9)
                | (None, w9, db9) \<Rightarrow>
                    (case upsert_daily pf aggregateRows w9 db9 of
                       (Some e, w10, db10) \<Rightarrow>
                         (Inl (''Failed to upsert sentiment aggregates: '' @ e), w10, db10)
                     | (None, w10, db10) \<Rightarrow> (Inr result, w10, db10)))
          else (Inr result, w8, db8))))))))))"

definition empty_run :: run_state where
  "empty_run = \<lparr>postRecords = [], postSentiments = [], commentRecords = [],
     commentSentiments = [], aggregates = [], errors = []\<rparr>"

text \<open>
  \<open>processRefresh\<close>. An unsupported timeframe has no configuration, and reading its hours
  throws a \<open>TypeError\<close>.
\<close>

definition processRefresh ::
  "platform \<Rightarrow> (world \<Rightarrow> (string + string) \<times> world) \<Rightarrow> string \<Rightarrow> string option
     \<Rightarrow> world \<Rightarrow> store \<Rightarrow> (string + ProcessResult) \<times> world \<times> store" where
  "processRefresh pf refresh tf keyword w db =
     (case map_of TIMEFRAME_CONFIG tf of
        None \<Rightarrow> (Inl ''Cannot read properties of undefined (reading hours)'', w, db)
      | Some hours \<Rightarrow>
          (let sinceEpoch = cutoff hours (clock w)
           in case select_subreddits pf w db of
                (Inl e, w1) \<Rightarrow> (Inl (''Failed to load subreddits: '' @ e), w1, db)
              | (Inr subs, w1) \<Rightarrow>
                  if length subs = 0 then
                    (Inl ''No subreddits configured. Seed the table first.'', w1, db)
                  else
                    (case subreddit_loop pf refresh tf sinceEpoch keyword subs empty_run w1 of
                       (Inl e, w2) \<Rightarrow> (Inl e, w2, db)
                     | (Inr acc, w2) \<Rightarrow> flush pf tf acc w2 db)))"

subsection \<open>The handler\<close>

record RefreshPayload =
  pl_timeframe :: "string option"
  pl_keyword :: "string option"

text \<open>A request; \<open>rq_body\<close> is \<open>None\<close> when the body is not JSON.\<close>

record request =
  rq_method :: string
  rq_body :: "RefreshPayload option"

record run_summary =
  rs_jobId :: nat
  rs_status :: string
  rs_timeframe :: string
  rs_keyword :: "string option"
  rs_postsProcessed :: nat
  rs_commentsProcessed :: nat
  rs_sentimentsInserted :: nat
  rs_aggregatesUpserted :: nat
  rs_warnings :: "string list"
  rs_durationMs :: int

text \<open>
  The bodies the handler answers with: a plain text, the rejection of a timeframe with the
  allowed ones, a failure with its message and the job id if there is one, and the summary
  of a run.
\<close>

datatype reply_body =
  Plain string
  | Rejected string "string list"
  | Failure string "nat option"
  | Summary run_summary

record reply =
  rp_status :: nat
  rp_body :: reply_body

definition createServiceClient :: "environment \<Rightarrow> string + unit" where
  "createServiceClient e =
     (let url = SUPABASE_URL e;
          serviceKey = (case SUPABASE_SERVICE_ROLE_KEY e of
                          Some k \<Rightarrow> Some k
                        | None \<Rightarrow> SERVICE_ROLE_KEY e)
      in if \<not> truthy url \<or> \<not> truthy serviceKey
         then Inl ''Supabase credentials are not configured.''
         else Inr ())"

text \<open>The patches of the three calls of \<open>updateJob\<close>.\<close>

definition processing_patch :: "instant \<Rightarrow> JobRow \<Rightarrow> JobRow" where
  "processing_patch startTimestamp j =
     j\<lparr>job_status := ''processing'', job_started_at := Some startTimestamp\<rparr>"

definition failed_patch :: "instant \<Rightarrow> string \<Rightarrow> int \<Rightarrow> JobRow \<Rightarrow> JobRow" where
  "failed_patch finishedAt message durationMs j =
     j\<lparr>job_status := ''failed'', job_finished_at := Some finishedAt,
       job_error := Some message, job_duration_ms := Some durationMs\<rparr>"

definition completed_patch :: "instant \<Rightarrow> ProcessResult \<Rightarrow> int \<Rightarrow> JobRow \<Rightarrow> JobRow" where
  "completed_patch finishedAt result durationMs j =
     j\<lparr>job_status := ''completed'', job_finished_at := Some finishedAt,
       job_posts_processed := postsProcessed result,
       job_comments_processed := commentsProcessed result,
       job_sentiments_processed := sentimentsInserted result,
       job_duration_ms := Some durationMs,
       job_error := (if length (result_errors result) > 0
                     then Some (join '' | '' (result_errors result)) else None)\<rparr>"

text \<open>The \<open>catch\<close> block of the handler, for a job that was created.\<close>

definition fail_job ::
  "platform \<Rightarrow> nat \<Rightarrow> instant \<Rightarrow> string \<Rightarrow> world \<Rightarrow> store \<Rightarrow> reply \<times> world \<times> store" where
  "fail_job pf jobId startTimestamp message w db =
     (let finishedAt = clock w;
          durationMs = finishedAt - startTimestamp
      in case updateJob pf jobId (failed_patch finishedAt message durationMs) w db of
           (w1, db1) \<Rightarrow>
             (\<lparr>rp_status = 500, rp_body = Failure message (Some jobId)\<rparr>, w1, db1))"

text \<open>The end of the \<open>try\<close> block, once \<open>processRefresh\<close> has returned its result.\<close>

definition finish_job ::
  "platform \<Rightarrow> nat \<Rightarrow> instant \<Rightarrow> string \<Rightarrow> string option \<Rightarrow> ProcessResult \<Rightarrow> world
     \<Rightarrow> store \<Rightarrow> reply \<times> world \<times> store" where
  "finish_job pf jobId startTimestamp tf keyword result w db =
     (let finishedAt = clock w;
          durationMs = finishedAt - startTimestamp
      in case updateJob pf jobId (completed_patch finishedAt result durationMs) w db of
           (w1, db1) \<Rightarrow>
             (\<lparr>rp_status = 200,
               rp_body = Summary
                 \<lparr>rs_jobId = jobId,
                  rs_status = (if length (result_errors result) > 0
                               then ''completed_with_warnings'' else ''completed''),
                  rs_timeframe = tf, rs_keyword = keyword,
                  rs_postsProcessed = postsProcessed result,
                  rs_commentsProcessed = commentsProcessed result,
                  rs_sentimentsInserted = sentimentsInserted result,
                  rs_aggregatesUpserted = aggregatesUpserted result,
                  rs_warnings = result_errors result,
                  rs_durationMs = durationMs\<rparr>\<rparr>, w1, db1))"

text \<open>The \<open>try\<close> block of the handler, after the client of the store has been created.\<close>

definition run_job ::
  "platform \<Rightarrow> string \<Rightarrow> string option \<Rightarrow> world \<Rightarrow> store \<Rightarrow> reply \<times> world \<times> store" where
  "run_job pf tf keyword w db =
     (let startTimestamp = clock w
      in case insert_job pf tf keyword w db of
           (Inl e, w1, db1) \<Rightarrow> (\<lparr>rp_status = 500, rp_body = Failure e None\<rparr>, w1, db1)
         | (Inr jobId, w1, db1) \<Rightarrow>
             (case updateJob pf jobId (processing_patch startTimestamp) w1 db1 of
                (w2, db2) \<Rightarrow>
                  (case fetchRedditAccessToken pf w2 of
                     (Inl e, w3) \<Rightarrow> fail_job pf jobId startTimestamp e w3 db2
                   | (Inr t, w3) \<Rightarrow>
                       (case processRefresh pf (fetchRedditAccessToken pf) tf keyword
                               (w3\<lparr>token := t\<rparr>) db2 of
                          (Inl e, w4, db4) \<Rightarrow> fail_job pf jobId startTimestamp e w4 db4
                        | (Inr result, w4, db4) \<Rightarrow>
                            finish_job pf jobId startTimestamp tf keyword result w4 db4))))"

text \<open>The handler passed to \<open>serve\<close>.\<close>

definition serve :: "platform \<Rightarrow> request \<Rightarrow> world \<Rightarrow> store \<Rightarrow> reply \<times> world \<times> store" where
  "serve pf req w db =
     (if rq_method req \<noteq> ''POST'' then
        (\<lparr>rp_status = 405, rp_body = Plain ''Method Not Allowed''\<rparr>, w, db)
      else case rq_body req of
        None \<Rightarrow> (\<lparr>rp_status = 400, rp_body = Failure ''Invalid JSON body.'' None\<rparr>, w, db)
      | Some payload \<Rightarrow>
          (let tf = (case pl_timeframe payload of None \<Rightarrow> ''7d'' | Some t \<Rightarrow> t)
           in if map_of TIMEFRAME_CONFIG tf = None then
                (\<lparr>rp_status = 400,
                  rp_body = Rejected ''Unsupported timeframe.'' (map fst TIMEFRAME_CONFIG)\<rparr>,
                 w, db)
              else
                (let keyword = normalizeKeyword (pl_keyword payload)
                 in case createServiceClient (env pf) of
                      Inl e \<Rightarrow> (\<lparr>rp_status = 500, rp_body = Failure e None\<rparr>, w, db)
                    | Inr client \<Rightarrow> run_job pf tf keyword w db)))"

text \<open>The route of the web application in front of the handler: its defaults.\<close>

definition route_timeframe :: "string option \<Rightarrow> string" where
  "route_timeframe t = (case t of None \<Rightarrow> ''7d'' | Some x \<Rightarrow> x)"

definition route_keyword :: "string option \<Rightarrow> string option" where
  "route_keyword k = (case k of None \<Rightarrow> None | Some x \<Rightarrow> or_null (trim x))"

subsection \<open>The content filter, read off the loop bodies\<close>

definition combined_text :: "post_data \<Rightarrow> string" where
  "combined_text d = trim (sanitizeText (p_title d) @ [CHR 0x0A] @ sanitizeText (p_selftext d))"

text \<open>A child of a listing passes when none of the \<open>continue\<close> guards of the post loop fires.\<close>

definition post_passes :: "int \<Rightarrow> string option \<Rightarrow> post_child \<Rightarrow> bool" where
  "post_passes sinceEpoch keyword child =
     (case pc_data child of
        None \<Rightarrow> False
      | Some d \<Rightarrow>
          pc_kind child = ''t3'' \<and> \<not> p_stickied d \<and> \<not> truthy (p_removed_by_category d) \<and>
          (case p_created_utc d of None \<Rightarrow> False | Some t \<Rightarrow> sinceEpoch \<le> t) \<and>
          (truthy keyword \<longrightarrow> matchesKeyword (combined_text d) keyword))"

text \<open>Likewise for the comment loop.\<close>

definition comment_passes :: "int \<Rightarrow> string option \<Rightarrow> comment_child \<Rightarrow> bool" where
  "comment_passes sinceEpoch keyword cc =
     (cc_kind cc = ''t1'' \<and>
      (case cc_data cc of
         None \<Rightarrow> False
       | Some c \<Rightarrow>
           (case c_created_utc c of None \<Rightarrow> False | Some t \<Rightarrow> sinceEpoch \<le> t) \<and>
           sanitizeText (c_body c) \<noteq> [] \<and>
           (truthy keyword \<longrightarrow> matchesKeyword (sanitizeText (c_body c)) keyword)))"

text \<open>The drafts the loop bodies build.\<close>

definition post_record :: "SubredditRow \<Rightarrow> instant \<Rightarrow> post_data \<Rightarrow> instant \<Rightarrow> PostRecordDraft" where
  "post_record subreddit nowIso d posted =
     \<lparr>pr_reddit_id = p_id d, pr_subreddit_id = sr_id subreddit,
      pr_title = sanitizeText (p_title d),
      pr_author = or_null (sanitizeText (p_author d)), pr_posted_at = posted,
      pr_score = p_score d, pr_comment_count = p_num_comments d,
      pr_permalink = map_option reddit_link (p_permalink d),
      pr_raw_json = d, pr_updated_at = nowIso\<rparr>"

definition post_sentiment ::
  "platform \<Rightarrow> SubredditRow \<Rightarrow> post_data \<Rightarrow> instant \<Rightarrow> instant \<Rightarrow> SentimentDraft" where
  "post_sentiment pf subreddit d posted scoredAt =
     \<lparr>sd_reddit_id = p_id d, sd_compound = polarity pf (combined_text d),
      sd_label = labelFromScore (polarity pf (combined_text d)), sd_scored_at = scoredAt,
      sd_posted_at = posted, sd_subreddit_id = sr_id subreddit\<rparr>"

definition comment_record :: "post_data \<Rightarrow> comment_data \<Rightarrow> instant \<Rightarrow> CommentRecordDraft" where
  "comment_record d c posted =
     \<lparr>cr_reddit_id = c_id c, cr_post_reddit_id = p_id d,
      cr_author = or_null (sanitizeText (c_author c)), cr_posted_at = posted,
      cr_body = sanitizeText (c_body c), cr_raw_json = c\<rparr>"

definition comment_sentiment ::
  "platform \<Rightarrow> SubredditRow \<Rightarrow> comment_data \<Rightarrow> instant \<Rightarrow> instant \<Rightarrow> SentimentDraft" where
  "comment_sentiment pf subreddit c posted scoredAt =
     \<lparr>sd_reddit_id = c_id c, sd_compound = polarity pf (sanitizeText (c_body c)),
      sd_label = labelFromScore (polarity pf (sanitizeText (c_body c))),
      sd_scored_at = scoredAt, sd_posted_at = posted, sd_subreddit_id = sr_id subreddit\<rparr>"

text \<open>The state of the post loop once a post that passed has been recorded and scored.\<close>

definition with_post ::
  "platform \<Rightarrow> SubredditRow \<Rightarrow> string \<Rightarrow> instant \<Rightarrow> post_data \<Rightarrow> instant \<Rightarrow> instant
     \<Rightarrow> run_state \<Rightarrow> run_state" where
  "with_post pf subreddit tf nowIso d posted scoredAt st =
     (if combined_text d = [] then
        st\<lparr>postRecords := postRecords st @ [post_record subreddit nowIso d posted]\<rparr>
      else
        st\<lparr>postRecords := postRecords st @ [post_record subreddit nowIso d posted],
           postSentiments := postSentiments st @ [post_sentiment pf subreddit d posted scoredAt],
           aggregates := updateAggregate (aggregates st) (sr_id subreddit) tf posted
             (labelFromScore (polarity pf (combined_text d)))\<rparr>)"

subsection \<open>The content filter as the specification words it\<close>

text \<open>
  Following the specification: an item is kept iff it is not stickied, not marked
  removed-by-category, created at or after the cutoff, its text is non-empty once the
  deletion sentinels are replaced by the empty string, and the keyword, when there is one,
  occurs in the lower-cased text.
\<close>

definition spec_keeps_post :: "int \<Rightarrow> string option \<Rightarrow> post_data \<Rightarrow> bool" where
  "spec_keeps_post sinceEpoch keyword d =
     (\<not> p_stickied d \<and> \<not> truthy (p_removed_by_category d) \<and>
      (case p_created_utc d of None \<Rightarrow> False | Some t \<Rightarrow> sinceEpoch \<le> t) \<and>
      combined_text d \<noteq> [] \<and>
      (truthy keyword \<longrightarrow> str_includes (toLowerCase (combined_text d)) (toLowerCase (the keyword))))"

definition spec_keeps_comment :: "int \<Rightarrow> string option \<Rightarrow> comment_data \<Rightarrow> bool" where
  "spec_keeps_comment sinceEpoch keyword c =
     (\<not> c_stickied c \<and>
      (case c_created_utc c of None \<Rightarrow> False | Some t \<Rightarrow> sinceEpoch \<le> t) \<and>
      sanitizeText (c_body c) \<noteq> [] \<and>
      (truthy keyword \<longrightarrow>
         str_includes (toLowerCase (sanitizeText (c_body c))) (toLowerCase (the keyword))))"

subsection \<open>The client as the specification words it\<close>

text \<open>
  Following the specification: at most three attempts; a retry after 401 "does not count
  against the rate-limit backoff", so the number that multiplies the delay (\<open>backoff\<close>) only
  counts the rate-limited attempts.
\<close>

function spec_fetchJson ::
  "platform \<Rightarrow> (world \<Rightarrow> (string + string) \<times> world) \<Rightarrow> string \<Rightarrow> nat \<Rightarrow> nat \<Rightarrow> world
     \<Rightarrow> (string + payload) \<times> world" where
  "spec_fetchJson pf refresh url attempt backoff w =
     (let w1 = w\<lparr>requests := requests w + 1\<rparr>
      in case http_get pf url (token w) (requests w) of
           Inl e \<Rightarrow> (Inl e, w1)
         | Inr resp \<Rightarrow>
             if status resp = 401 \<and> attempt < 3 then
               (case refresh w1 of
                  (Inl e, w2) \<Rightarrow> (Inl e, w2)
                | (Inr t, w2) \<Rightarrow>
                    spec_fetchJson pf refresh url (attempt + 1) backoff (w2\<lparr>token := t\<rparr>))
             else if (status resp = 429 \<or> status resp = 403) \<and> attempt < 3 then
               spec_fetchJson pf refresh url (attempt + 1) (backoff + 1)
                 (delay (RATE_LIMIT_MS * backoff) w1)
             else if \<not> ok (status resp) then
               (Inl (''Reddit request failed ('' @ digits_of (status resp) @ ''): '' @ url
                      @ '' :: '' @ body_text resp), w1)
             else
               (case body_json resp of
                  None \<Rightarrow> (Inl ''Unexpected token in JSON'', w1)
                | Some j \<Rightarrow> (Inr j, w1)))"
  by pat_completeness auto
termination
  by (relation "measure (\<lambda>(pf, refresh, url, attempt, backoff, w). 3 - attempt)") auto

declare spec_fetchJson.simps [simp del]

subsection \<open>Example platforms\<close>

definition plain_response :: "nat \<Rightarrow> response" where
  "plain_response st = \<lparr>status = st, body_text = ''body'', body_json = Some Opaque\<rparr>"

definition no_env :: environment where
  "no_env = \<lparr>REDDIT_CLIENT_ID = None, REDDIT_CLIENT_SECRET = None, REDDIT_USERNAME = None,
     REDDIT_PASSWORD = None, SUPABASE_URL = None, SUPABASE_SERVICE_ROLE_KEY = None,
     SERVICE_ROLE_KEY = None\<rparr>"

text \<open>A platform whose upstream answers the successive GETs with the given statuses, and 200 after them.\<close>

definition status_platform :: "nat list \<Rightarrow> platform" where
  "status_platform sts =
     \<lparr>env = no_env,
      http_get = (\<lambda>url tok n. Inr (plain_response (if n < length sts then sts ! n else 200))),
      token_post = (\<lambda>g n. Inl ''unreachable''),
      polarity = (\<lambda>t. 0),
      store_fault = (\<lambda>n. None)\<rparr>"

definition fresh_token :: "world \<Rightarrow> (string + string) \<times> world" where
  "fresh_token w = (Inr ''t2'', w\<lparr>token_requests := token_requests w + 1\<rparr>)"

definition world0 :: world where
  "world0 = \<lparr>requests = 0, token_requests = 0, token = ''t1'', slept = [], clock = 0,
        store_ops = 0\<rparr>"


definition example_sub :: SubredditRow where
  "example_sub = \<lparr>sr_id = ''s1'', sr_name = ''codex''\<rparr>"

definition empty_state :: run_state where
  "empty_state = \<lparr>postRecords = [], postSentiments = [], commentRecords = [],
     commentSentiments = [], aggregates = [], errors = []\<rparr>"

text \<open>A post created at second \<open>t\<close> of the epoch.\<close>

definition example_post :: "string \<Rightarrow> string \<Rightarrow> string \<Rightarrow> int \<Rightarrow> post_data" where
  "example_post i title selftext t =
     \<lparr>p_id = i, p_title = Some title, p_selftext = Some selftext, p_author = Some ''alice'',
      p_created_utc = Some t, p_score = Some 1, p_num_comments = Some 0,
      p_permalink = None, p_stickied = False, p_removed_by_category = None\<rparr>"

definition t3 :: "post_data \<Rightarrow> post_child" where
  "t3 d = \<lparr>pc_kind = ''t3'', pc_data = Some d\<rparr>"

definition example_comment :: "string \<Rightarrow> string \<Rightarrow> int \<Rightarrow> bool \<Rightarrow> comment_data" where
  "example_comment i body t sticky =
     \<lparr>c_id = i, c_author = Some ''bob'', c_created_utc = Some t, c_body = Some body,
      c_stickied = sticky\<rparr>"

definition t1 :: "comment_data \<Rightarrow> comment_child" where
  "t1 c = \<lparr>cc_kind = ''t1'', cc_data = Some c\<rparr>"


section \<open>Properties\<close>

subsection \<open>Evaluating digits\<close>

lemma digits_of_small: "n < 10 \<Longrightarrow> digits_of n = [''0123456789'' ! n]"
  by (subst digits_of.simps) simp

lemma digits_of_large:
  "10 \<le> n \<Longrightarrow> digits_of n = digits_of (n div 10) @ [''0123456789'' ! (n mod 10)]"
  by (subst digits_of.simps) simp


subsection \<open>Labels\<close>

text \<open>
  C8. The label of a compound score is positive from 0.05 upwards, negative from -0.05
  downwards and neutral strictly between; the four boundary values of the specification
  are labelled positive, negative, neutral and neutral.
\<close>

theorem labelFromScore_thresholds:
  "(compound \<ge> 0.05 \<longrightarrow> labelFromScore compound = Positive) \<and>
   (compound \<le> - 0.05 \<longrightarrow> labelFromScore compound = Negative) \<and>
   (- 0.05 < compound \<and> compound < 0.05 \<longrightarrow> labelFromScore compound = Neutral) \<and>
   labelFromScore 0.05 = Positive \<and>
   labelFromScore (- 0.05) = Negative \<and>
   labelFromScore 0.049999 = Neutral \<and>
   labelFromScore (- 0.049999) = Neutral"
  by (simp add: labelFromScore_def)

theorem labelFromScore_thresholds_witness:
  "(0.3::real) \<ge> 0.05 \<and> labelFromScore 0.3 = Positive \<and>
   (- 0.7::real) \<le> - 0.05 \<and> labelFromScore (- 0.7) = Negative \<and>
   - 0.05 < (0.01::real) \<and> (0.01::real) < 0.05 \<and> labelFromScore 0.01 = Neutral"
  using labelFromScore_thresholds [of "0.3"] labelFromScore_thresholds [of "- 0.7"]
    labelFromScore_thresholds [of "0.01"]
  by simp

subsection \<open>The rate-limited client\<close>

lemma fetchJson_fetch_error:
  "http_get pf url (token w) (requests w) = Inl e \<Longrightarrow>
   fetchJson pf refresh url attempt w = (Inl e, w\<lparr>requests := requests w + 1\<rparr>)"
  by (subst fetchJson.simps) (simp add: Let_def)

lemma fetchJson_401:
  "http_get pf url (token w) (requests w) = Inr resp \<Longrightarrow> status resp = 401 \<Longrightarrow> attempt < 3 \<Longrightarrow>
   fetchJson pf refresh url attempt w =
     (case refresh (w\<lparr>requests := requests w + 1\<rparr>) of
        (Inl e, w2) \<Rightarrow> (Inl e, w2)
      | (Inr t, w2) \<Rightarrow> fetchJson pf refresh url (attempt + 1) (w2\<lparr>token := t\<rparr>))"
  by (subst fetchJson.simps) (simp add: Let_def)

lemma fetchJson_rate_limited:
  "http_get pf url (token w) (requests w) = Inr resp \<Longrightarrow>
   status resp = 429 \<or> status resp = 403 \<Longrightarrow> attempt < 3 \<Longrightarrow>
   fetchJson pf refresh url attempt w =
     fetchJson pf refresh url (attempt + 1)
       (delay (RATE_LIMIT_MS * attempt) (w\<lparr>requests := requests w + 1\<rparr>))"
  by (subst fetchJson.simps) (auto simp add: Let_def)

lemma fetchJson_final:
  "http_get pf url (token w) (requests w) = Inr resp \<Longrightarrow>
   attempt \<ge> 3 \<or> status resp \<notin> {401, 429, 403} \<Longrightarrow>
   fetchJson pf refresh url attempt w =
     (if \<not> ok (status resp) then
        (Inl (''Reddit request failed ('' @ digits_of (status resp) @ ''): '' @ url
               @ '' :: '' @ body_text resp), w\<lparr>requests := requests w + 1\<rparr>)
      else (case body_json resp of
              None \<Rightarrow> (Inl ''Unexpected token in JSON'', w\<lparr>requests := requests w + 1\<rparr>)
            | Some j \<Rightarrow> (Inr j, w\<lparr>requests := requests w + 1\<rparr>)))"
  by (subst fetchJson.simps) (auto simp add: Let_def split: option.splits)

lemma fetchJson_requests:
  assumes refresh: "\<forall>w. requests (snd (refresh w)) = requests w"
  shows "requests w + 1 \<le> requests (snd (fetchJson pf refresh url attempt w)) \<and>
         requests (snd (fetchJson pf refresh url attempt w))
           \<le> requests w + (if attempt < 3 then 4 - attempt else 1)"
proof (induction "3 - attempt" arbitrary: attempt w rule: less_induct)
  case less
  let ?w1 = "w\<lparr>requests := requests w + 1\<rparr>"
  show ?case
  proof (cases "http_get pf url (token w) (requests w)")
    case (Inl e)
    then show ?thesis by (auto simp add: fetchJson_fetch_error)
  next
    case (Inr resp)
    consider (auth) "status resp = 401" "attempt < 3"
      | (rate) "status resp = 429 \<or> status resp = 403" "attempt < 3"
      | (final) "attempt \<ge> 3 \<or> status resp \<notin> {401, 429, 403}"
      by fastforce
    then show ?thesis
    proof cases
      case auth
      obtain r w2 where rw: "refresh ?w1 = (r, w2)" by force
      have w2: "requests w2 = requests w + 1"
        using refresh [rule_format, of ?w1] rw by simp
      show ?thesis
      proof (cases r)
        case (Inl e)
        then show ?thesis
          using auth w2 rw by (auto simp add: fetchJson_401 [OF Inr auth])
      next
        case r: (Inr t)
        have "3 - (attempt + 1) < 3 - attempt" using auth by simp
        from less [OF this, of "w2\<lparr>token := t\<rparr>"] show ?thesis
          using auth w2 rw r by (auto simp add: fetchJson_401 [OF Inr auth] split: if_splits)
      qed
    next
      case rate
      have "3 - (attempt + 1) < 3 - attempt" using rate by simp
      from less [OF this, of "delay (RATE_LIMIT_MS * attempt) ?w1"] show ?thesis
        using rate
        by (auto simp add: fetchJson_rate_limited [OF Inr rate] delay_def split: if_splits)
    next
      case final
      show ?thesis
        by (auto simp add: fetchJson_final [OF Inr final] split: option.splits)
    qed
  qed
qed

lemma fetchRedditAccessToken_requests:
  "requests (snd (fetchRedditAccessToken pf w)) = requests w"
  by (auto simp: fetchRedditAccessToken_def requestRedditAccessToken_def Let_def
      split: sum.splits prod.splits if_splits)

lemma fetchJson_example_401_429:
  "fetchJson (status_platform [401, 429]) fresh_token ''u'' 1 world0 =
     (Inr Opaque, \<lparr>requests = 3, token_requests = 1, token = ''t2'', slept = [1800],
        clock = 1800,
        store_ops = 0\<rparr>)"
  by (subst fetchJson.simps,
      simp add: status_platform_def plain_response_def fresh_token_def world0_def delay_def
        RATE_LIMIT_MS_def ok_def)+

lemma spec_fetchJson_example_401_429:
  "spec_fetchJson (status_platform [401, 429]) fresh_token ''u'' 1 1 world0 =
     (Inr Opaque, \<lparr>requests = 3, token_requests = 1, token = ''t2'', slept = [900],
        clock = 900,
        store_ops = 0\<rparr>)"
  by (subst spec_fetchJson.simps,
      simp add: status_platform_def plain_response_def fresh_token_def world0_def delay_def
        RATE_LIMIT_MS_def ok_def)+

text \<open>
  C5, as stated, fails: when the upstream answers 401, then 429, then 200, the retry after
  the 401 has used up an attempt, and the wait before the retry of the 429 is twice the
  base delay, where a 401 retry that did not count would leave it at the base delay.
\<close>

theorem fetchJson_401_counts_counterexample:
  "fetchJson (status_platform [401, 429]) fresh_token ''u'' 1 world0 \<noteq>
   spec_fetchJson (status_platform [401, 429]) fresh_token ''u'' 1 1 world0"
  unfolding fetchJson_example_401_429 spec_fetchJson_example_401_429 by simp

text \<open>
  C5, amended. One attempt number is shared by all retries of a GET. A GET started at
  attempt 1 issues at most three requests. On 401 at attempt 1 or 2 the token is refreshed
  and the request is retried at the next attempt number with no delay of the client's own;
  when the refresh fails, its error is the result. On 429 or 403 at attempt 1 or 2 the
  client waits \<open>RATE_LIMIT_MS\<close> times the attempt number and retries. On any other status
  that is not 2xx, and on 401, 429 or 403 at attempt 3, it fails at once, with the status,
  the URL and the response body in the message.
\<close>

theorem fetchJson_retry_policy:
  assumes "\<forall>w. requests (snd (refresh w)) = requests w"
    and "http_get pf url (token w) (requests w) = Inr resp"
  shows
    "requests (snd (fetchJson pf refresh url 1 w)) \<le> requests w + 3 \<and>
     (status resp = 401 \<and> attempt < 3 \<longrightarrow>
        fetchJson pf refresh url attempt w =
          (case refresh (w\<lparr>requests := requests w + 1\<rparr>) of
             (Inl e, w2) \<Rightarrow> (Inl e, w2)
           | (Inr t, w2) \<Rightarrow> fetchJson pf refresh url (attempt + 1) (w2\<lparr>token := t\<rparr>))) \<and>
     ((status resp = 429 \<or> status resp = 403) \<and> attempt < 3 \<longrightarrow>
        fetchJson pf refresh url attempt w =
          fetchJson pf refresh url (attempt + 1)
            (delay (RATE_LIMIT_MS * attempt) (w\<lparr>requests := requests w + 1\<rparr>))) \<and>
     (\<not> ok (status resp) \<and> (attempt \<ge> 3 \<or> status resp \<notin> {401, 429, 403}) \<longrightarrow>
        fetchJson pf refresh url attempt w =
          (Inl (''Reddit request failed ('' @ digits_of (status resp) @ ''): '' @ url
                 @ '' :: '' @ body_text resp), w\<lparr>requests := requests w + 1\<rparr>))"
proof -
  have "requests (snd (fetchJson pf refresh url 1 w)) \<le> requests w + 3"
    using fetchJson_requests [OF assms(1), of w pf url 1] by simp
  moreover have "status resp = 401 \<and> attempt < 3 \<longrightarrow>
        fetchJson pf refresh url attempt w =
          (case refresh (w\<lparr>requests := requests w + 1\<rparr>) of
             (Inl e, w2) \<Rightarrow> (Inl e, w2)
           | (Inr t, w2) \<Rightarrow> fetchJson pf refresh url (attempt + 1) (w2\<lparr>token := t\<rparr>))"
    using fetchJson_401 [OF assms(2)] by blast
  moreover have "(status resp = 429 \<or> status resp = 403) \<and> attempt < 3 \<longrightarrow>
        fetchJson pf refresh url attempt w =
          fetchJson pf refresh url (attempt + 1)
            (delay (RATE_LIMIT_MS * attempt) (w\<lparr>requests := requests w + 1\<rparr>))"
    using fetchJson_rate_limited [OF assms(2)] by blast
  moreover have "\<not> ok (status resp) \<and> (attempt \<ge> 3 \<or> status resp \<notin> {401, 429, 403}) \<longrightarrow>
        fetchJson pf refresh url attempt w =
          (Inl (''Reddit request failed ('' @ digits_of (status resp) @ ''): '' @ url
                 @ '' :: '' @ body_text resp), w\<lparr>requests := requests w + 1\<rparr>)"
    using fetchJson_final [OF assms(2), of attempt refresh] by simp
  ultimately show ?thesis by blast
qed

theorem fetchJson_retry_policy_witness:
  "(\<forall>w. requests (snd (fresh_token w)) = requests w) \<and>
   http_get (status_platform [401, 429]) ''u'' (token world0) (requests world0)
     = Inr (plain_response 401) \<and>
   requests (snd (fetchJson (status_platform [401, 429]) fresh_token ''u'' 1 world0))
     \<le> requests world0 + 3 \<and>
   fetchJson (status_platform [401, 429]) fresh_token ''u'' 1 world0 =
     fetchJson (status_platform [401, 429]) fresh_token ''u'' 2
       \<lparr>requests = 1, token_requests = 1, token = ''t2'', slept = [], clock = 0,
        store_ops = 0\<rparr> \<and>
   http_get (status_platform [429]) ''u'' (token world0) (requests world0)
     = Inr (plain_response 429) \<and>
   fetchJson (status_platform [429]) fresh_token ''u'' 1 world0 =
     fetchJson (status_platform [429]) fresh_token ''u'' 2
       \<lparr>requests = 1, token_requests = 0, token = ''t1'', slept = [900], clock = 900,
        store_ops = 0\<rparr> \<and>
   http_get (status_platform [500]) ''u'' (token world0) (requests world0)
     = Inr (plain_response 500) \<and>
   fetchJson (status_platform [500]) fresh_token ''u'' 1 world0 =
     (Inl ''Reddit request failed (500): u :: body'',
      \<lparr>requests = 1, token_requests = 0, token = ''t1'', slept = [], clock = 0,
        store_ops = 0\<rparr>)"
proof -
  have r: "\<forall>w. requests (snd (fresh_token w)) = requests w"
    by (simp add: fresh_token_def)
  have g1: "http_get (status_platform [401, 429]) ''u'' (token world0) (requests world0)
     = Inr (plain_response 401)"
    by (simp add: status_platform_def world0_def)
  have g2: "http_get (status_platform [429]) ''u'' (token world0) (requests world0)
     = Inr (plain_response 429)"
    by (simp add: status_platform_def world0_def)
  have g3: "http_get (status_platform [500]) ''u'' (token world0) (requests world0)
     = Inr (plain_response 500)"
    by (simp add: status_platform_def world0_def)
  have d: "digits_of 500 = ''500''"
    by (simp add: digits_of_small digits_of_large)
  note p1 = fetchJson_retry_policy [OF r g1, of 1]
  note p2 = fetchJson_retry_policy [OF r g2, of 1]
  note p3 = fetchJson_retry_policy [OF r g3, of 1]
  have b: "requests (snd (fetchJson (status_platform [401, 429]) fresh_token ''u'' 1 world0))
     \<le> requests world0 + 3"
    using p1 by blast
  have "status (plain_response 401) = 401 \<and> (1::nat) < 3"
    by (simp add: plain_response_def)
  with p1 have e1: "fetchJson (status_platform [401, 429]) fresh_token ''u'' 1 world0 =
      (case fresh_token (world0\<lparr>requests := requests world0 + 1\<rparr>) of
         (Inl e, w2) \<Rightarrow> (Inl e, w2)
       | (Inr t, w2) \<Rightarrow>
           fetchJson (status_platform [401, 429]) fresh_token ''u'' (1 + 1) (w2\<lparr>token := t\<rparr>))"
    by blast
  have f1: "fresh_token (world0\<lparr>requests := requests world0 + 1\<rparr>) =
      (Inr ''t2'', \<lparr>requests = 1, token_requests = 1, token = ''t1'', slept = [],
         clock = 0,
        store_ops = 0\<rparr>)"
    by (simp add: fresh_token_def world0_def)
  have c1: "fetchJson (status_platform [401, 429]) fresh_token ''u'' 1 world0 =
     fetchJson (status_platform [401, 429]) fresh_token ''u'' 2
       \<lparr>requests = 1, token_requests = 1, token = ''t2'', slept = [], clock = 0,
        store_ops = 0\<rparr>"
    unfolding e1 f1 by (simp add: numeral_2_eq_2)
  have "(status (plain_response 429) = 429 \<or> status (plain_response 429) = 403) \<and>
      (1::nat) < 3"
    by (simp add: plain_response_def)
  with p2 have e2: "fetchJson (status_platform [429]) fresh_token ''u'' 1 world0 =
      fetchJson (status_platform [429]) fresh_token ''u'' (1 + 1)
        (delay (RATE_LIMIT_MS * 1) (world0\<lparr>requests := requests world0 + 1\<rparr>))"
    by blast
  have f2: "delay (RATE_LIMIT_MS * 1) (world0\<lparr>requests := requests world0 + 1\<rparr>) =
      \<lparr>requests = 1, token_requests = 0, token = ''t1'', slept = [900], clock = 900,
        store_ops = 0\<rparr>"
    by (simp add: delay_def RATE_LIMIT_MS_def world0_def)
  have c2: "fetchJson (status_platform [429]) fresh_token ''u'' 1 world0 =
     fetchJson (status_platform [429]) fresh_token ''u'' 2
       \<lparr>requests = 1, token_requests = 0, token = ''t1'', slept = [900], clock = 900,
        store_ops = 0\<rparr>"
    unfolding e2 f2 by (simp add: numeral_2_eq_2)
  have "\<not> ok (status (plain_response 500)) \<and>
      ((1::nat) \<ge> 3 \<or> status (plain_response 500) \<notin> {401, 429, 403})"
    by (simp add: plain_response_def ok_def)
  with p3 have e3: "fetchJson (status_platform [500]) fresh_token ''u'' 1 world0 =
      (Inl (''Reddit request failed ('' @ digits_of (status (plain_response 500)) @ ''): ''
             @ ''u'' @ '' :: '' @ body_text (plain_response 500)),
       world0\<lparr>requests := requests world0 + 1\<rparr>)"
    by blast
  have c3: "fetchJson (status_platform [500]) fresh_token ''u'' 1 world0 =
     (Inl ''Reddit request failed (500): u :: body'',
      \<lparr>requests = 1, token_requests = 0, token = ''t1'', slept = [], clock = 0,
        store_ops = 0\<rparr>)"
    unfolding e3 by (simp add: plain_response_def d world0_def)
  from r g1 b c1 g2 c2 g3 c3 show ?thesis
    by blast
qed

subsection \<open>The content filter and the post loop\<close>

lemma comment_body_skipped:
  "\<not> comment_passes since kw cc \<Longrightarrow> comment_body pf sub tf since kw d cc st w = Inr st"
  by (auto simp: comment_passes_def comment_body_def Let_def split: option.splits)

lemma comment_body_kept:
  assumes "comment_passes since kw cc" "cc_data cc = Some c" "c_created_utc c = Some t"
  shows "comment_body pf sub tf since kw d cc st w =
     (case toISOString (t * 1000) of
        Inl e \<Rightarrow> Inl e
      | Inr posted \<Rightarrow>
          Inr (st\<lparr>commentRecords := commentRecords st @ [comment_record d c posted],
                 commentSentiments := commentSentiments st @
                   [comment_sentiment pf sub c posted (clock w)],
                 aggregates := updateAggregate (aggregates st) (sr_id sub) tf posted
                   (labelFromScore (polarity pf (sanitizeText (c_body c))))\<rparr>))"
  using assms
  by (auto simp: comment_passes_def comment_body_def comment_record_def comment_sentiment_def
      Let_def split: option.splits sum.splits)

lemma comment_body_posts:
  "comment_body pf sub tf since kw d cc st w = Inr st' \<Longrightarrow>
   postRecords st' = postRecords st \<and> postSentiments st' = postSentiments st \<and>
   errors st' = errors st"
  by (auto simp: comment_body_def Let_def split: option.splits sum.splits if_splits)

lemma comment_body_error:
  "comment_body pf sub tf since kw d cc st w = Inl e \<Longrightarrow> e = ''Invalid time value''"
  by (auto simp: comment_body_def Let_def toISOString_def
      split: option.splits sum.splits if_splits)

lemma comment_loop_posts:
  "comment_loop pf sub tf since kw d cs st w = Inr st' \<Longrightarrow>
   postRecords st' = postRecords st \<and> postSentiments st' = postSentiments st \<and>
   errors st' = errors st"
proof (induction cs arbitrary: st)
  case Nil
  then show ?case by simp
next
  case (Cons c cs)
  then show ?case
    by (auto split: sum.splits dest!: comment_body_posts)
qed

lemma comment_loop_error:
  "comment_loop pf sub tf since kw d cs st w = Inl e \<Longrightarrow> e = ''Invalid time value''"
proof (induction cs arbitrary: st)
  case Nil
  then show ?case by simp
next
  case (Cons c cs)
  then show ?case
    by (auto split: sum.splits dest: comment_body_error)
qed

lemma post_body_skipped:
  "\<not> post_passes since kw child \<Longrightarrow>
   post_body pf refresh sub tf since kw now child st w = (Inr st, w)"
  by (auto simp: post_passes_def post_body_def combined_text_def Let_def split: option.splits)

lemma post_body_kept:
  assumes "post_passes since kw child" "pc_data child = Some d" "p_created_utc d = Some t"
  shows "post_body pf refresh sub tf since kw now child st w =
     (case toISOString (t * 1000) of
        Inl e \<Rightarrow> (Inl e, w)
      | Inr posted \<Rightarrow>
          (case fetchJson pf refresh (commentsUrl (p_id d)) 1 w of
             (Inl message, w1) \<Rightarrow>
               (Inr ((with_post pf sub tf now d posted (clock w) st)
                       \<lparr>errors := errors st @ [comments_warning sub (p_id d) message]\<rparr>),
                delay RATE_LIMIT_MS w1)
           | (Inr commentsListing, w1) \<Rightarrow>
               (case comment_loop pf sub tf since kw d (thread_children commentsListing)
                       (with_post pf sub tf now d posted (clock w) st) w1 of
                  Inl e \<Rightarrow> (Inl e, w1)
                | Inr st3 \<Rightarrow> (Inr st3, delay RATE_LIMIT_MS w1))))"
proof -
  from assms have k: "pc_kind child = ''t3''" "\<not> p_stickied d"
    "\<not> truthy (p_removed_by_category d)" "since \<le> t"
    "\<not> (truthy kw \<and> \<not> matchesKeyword (combined_text d) kw)"
    by (auto simp: post_passes_def)
  show ?thesis
  proof (cases "toISOString (t * 1000)")
    case (Inl e)
    then show ?thesis
      unfolding post_body_def using k assms(2,3)
      by (simp add: combined_text_def Let_def)
  next
    case posted: (Inr posted)
    obtain r w1 where f: "fetchJson pf refresh (commentsUrl (p_id d)) 1 w = (r, w1)"
      by force
    show ?thesis
    proof (cases r)
      case (Inl message)
      then show ?thesis
        unfolding post_body_def using k assms(2,3) posted f
        by (auto simp add: combined_text_def Let_def with_post_def post_record_def
            post_sentiment_def split: sum.splits)
    next
      case (Inr listing)
      then show ?thesis
        unfolding post_body_def using k assms(2,3) posted f
        by (auto simp add: combined_text_def Let_def with_post_def post_record_def
            post_sentiment_def split: sum.splits)
    qed
  qed
qed


lemma toISOString_Inr: "toISOString ms = Inr posted \<Longrightarrow> posted = ms"
  by (simp add: toISOString_def split: if_splits)

lemma toISOString_Inl: "toISOString ms = Inl e \<Longrightarrow> e = ''Invalid time value''"
  by (simp add: toISOString_def split: if_splits)

lemma with_post_fields:
  "postRecords (with_post pf sub tf now d posted sc st) =
     postRecords st @ [post_record sub now d posted]"
  "postSentiments (with_post pf sub tf now d posted sc st) =
     postSentiments st @
       (if combined_text d = [] then [] else [post_sentiment pf sub d posted sc])"
  "commentRecords (with_post pf sub tf now d posted sc st) = commentRecords st"
  "commentSentiments (with_post pf sub tf now d posted sc st) = commentSentiments st"
  "errors (with_post pf sub tf now d posted sc st) = errors st"
  by (simp_all add: with_post_def)

lemma post_passes_data:
  assumes "post_passes since kw child"
  obtains d t where "pc_data child = Some d" "p_created_utc d = Some t" "since \<le> t"
  using assms by (auto simp: post_passes_def split: option.splits)

lemma comment_passes_data:
  assumes "comment_passes since kw cc"
  obtains c t where "cc_data cc = Some c" "c_created_utc c = Some t" "since \<le> t"
  using assms by (auto simp: comment_passes_def split: option.splits)

lemma post_body_drafts:
  assumes "post_passes since kw child" "pc_data child = Some d" "p_created_utc d = Some t"
    and "post_body pf refresh sub tf since kw now child st w = (Inr st', w')"
  shows "postRecords st' = postRecords st @ [post_record sub now d (t * 1000)] \<and>
         postSentiments st' = postSentiments st @
           (if combined_text d = [] then []
            else [post_sentiment pf sub d (t * 1000) (clock w)]) \<and>
         set (errors st) \<subseteq> set (errors st')"
proof -
  note kept = post_body_kept [OF assms(1-3), of pf refresh sub tf now st w]
  show ?thesis
  proof (cases "toISOString (t * 1000)")
    case (Inl e)
    with kept assms(4) show ?thesis by simp
  next
    case posted: (Inr posted)
    then have p: "posted = t * 1000" by (rule toISOString_Inr)
    obtain r w1 where f: "fetchJson pf refresh (commentsUrl (p_id d)) 1 w = (r, w1)"
      by force
    show ?thesis
    proof (cases r)
      case (Inl message)
      with kept assms(4) posted f p show ?thesis
        by (auto simp: with_post_fields)
    next
      case (Inr listing)
      with kept assms(4) posted f
      have "comment_loop pf sub tf since kw d (thread_children listing)
              (with_post pf sub tf now d posted (clock w) st) w1 = Inr st'"
        by (auto split: sum.splits)
      from comment_loop_posts [OF this] p show ?thesis
        by (auto simp: with_post_fields)
    qed
  qed
qed

lemma post_body_error:
  assumes "post_body pf refresh sub tf since kw now child st w = (Inl e, w')"
  shows "e = ''Invalid time value''"
proof (cases "post_passes since kw child")
  case False
  with assms show ?thesis by (simp add: post_body_skipped)
next
  case True
  then obtain d t where dt: "pc_data child = Some d" "p_created_utc d = Some t"
    by (rule post_passes_data)
  note kept = post_body_kept [OF True dt, of pf refresh sub tf now st w]
  show ?thesis
    using assms kept
    by (auto split: sum.splits prod.splits dest: toISOString_Inl comment_loop_error)
qed

lemma post_body_errors:
  assumes "post_body pf refresh sub tf since kw now child st w = (Inr st', w')"
  shows "set (errors st) \<subseteq> set (errors st')"
proof (cases "post_passes since kw child")
  case False
  with assms show ?thesis by (simp add: post_body_skipped)
next
  case True
  then obtain d t where dt: "pc_data child = Some d" "p_created_utc d = Some t"
    by (rule post_passes_data)
  from post_body_drafts [OF True dt assms] show ?thesis by simp
qed

lemma post_loop_errors:
  "post_loop pf refresh sub tf since kw now cs st w = (Inr st', w') \<Longrightarrow>
   set (errors st) \<subseteq> set (errors st')"
proof (induction cs arbitrary: st w)
  case Nil
  then show ?case by simp
next
  case (Cons c cs)
  obtain r w1 where b: "post_body pf refresh sub tf since kw now c st w = (r, w1)"
    by force
  show ?case
  proof (cases r)
    case (Inl e)
    with Cons.prems b show ?thesis by simp
  next
    case (Inr st1)
    with Cons.prems b have "post_loop pf refresh sub tf since kw now cs st1 w1 = (Inr st', w')"
      by simp
    from Cons.IH [OF this] post_body_errors [OF b [unfolded Inr]] show ?thesis
      by blast
  qed
qed

lemma starts_with_append: "starts_with (k @ ys) k"
  by (induction k) auto

lemma str_includes_append: "str_includes (xs @ k @ ys) k"
proof (induction xs)
  case Nil
  show ?case
    by (cases "k @ ys") (use starts_with_append [of k ys] in auto)
next
  case (Cons x xs)
  then show ?case by simp
qed


text \<open>
  C6, as stated, fails. A post whose title and selftext are both deletion sentinels has an
  empty text, and with no keyword configured the post loop still appends its draft record
  (only the scoring is skipped). A stickied comment with a body is kept: the comment loop
  never reads \<open>stickied\<close>.
\<close>

theorem content_filter_counterexample:
  "\<not> spec_keeps_post 100 None (example_post ''p1'' ''[removed]'' ''[removed]'' 200) \<and>
   fst (post_body (status_platform []) fresh_token example_sub ''7d'' 100 None 0
          (t3 (example_post ''p1'' ''[removed]'' ''[removed]'' 200)) empty_state world0)
     = Inr (empty_state\<lparr>postRecords :=
              [post_record example_sub 0 (example_post ''p1'' ''[removed]'' ''[removed]'' 200)
                 200000]\<rparr>) \<and>
   \<not> spec_keeps_comment 100 None (example_comment ''c1'' ''Welcome'' 200 True) \<and>
   map cr_reddit_id (commentRecords (projr
     (comment_body (status_platform []) example_sub ''7d'' 100 None
        (example_post ''p1'' ''[removed]'' ''[removed]'' 200)
        (t1 (example_comment ''c1'' ''Welcome'' 200 True)) empty_state world0))) = [''c1'']"
proof -
  let ?d = "example_post ''p1'' ''[removed]'' ''[removed]'' 200"
  let ?c = "example_comment ''c1'' ''Welcome'' 200 True"
  have ct: "combined_text ?d = []"
    by (simp add: combined_text_def example_post_def sanitizeText_def trim_def is_space_def)
  have a: "\<not> spec_keeps_post 100 None ?d"
    by (simp add: spec_keeps_post_def ct)
  have pp: "post_passes 100 None (t3 ?d)"
    by (simp add: post_passes_def t3_def example_post_def)
  have f: "fetchJson (status_platform []) fresh_token (commentsUrl (p_id ?d)) 1 world0 =
      (Inr Opaque, world0\<lparr>requests := 1\<rparr>)"
    by (subst fetchJson.simps)
      (simp add: status_platform_def plain_response_def world0_def ok_def)
  have dt: "pc_data (t3 ?d) = Some ?d" "p_created_utc ?d = Some 200"
    by (simp_all add: t3_def example_post_def)
  have iso: "toISOString (200 * 1000) = Inr 200000"
    by (simp add: toISOString_def)
  note k = post_body_kept [OF pp dt, of "status_platform []" fresh_token example_sub "''7d''"
      0 empty_state world0]
  have b: "fst (post_body (status_platform []) fresh_token example_sub ''7d'' 100 None 0
          (t3 ?d) empty_state world0)
     = Inr (empty_state\<lparr>postRecords := [post_record example_sub 0 ?d 200000]\<rparr>)"
    unfolding k iso f by (simp add: with_post_def ct empty_state_def)
  have c: "\<not> spec_keeps_comment 100 None ?c"
    by (simp add: spec_keeps_comment_def example_comment_def)
  have cp: "comment_passes 100 None (t1 ?c)"
    by (simp add: comment_passes_def t1_def example_comment_def sanitizeText_def)
  have cdt: "cc_data (t1 ?c) = Some ?c" "c_created_utc ?c = Some 200"
    by (simp_all add: t1_def example_comment_def)
  note ck = comment_body_kept [OF cp cdt, of "status_platform []" example_sub "''7d''" ?d
      empty_state world0]
  have d: "map cr_reddit_id (commentRecords (projr
     (comment_body (status_platform []) example_sub ''7d'' 100 None ?d (t1 ?c) empty_state world0)))
     = [''c1'']"
    unfolding ck iso by (simp add: empty_state_def comment_record_def example_comment_def)
  from a b c d show ?thesis by blast
qed


text \<open>
  C6, amended. A post contributes a draft record iff it is a \<open>t3\<close> child with data, not
  stickied, not marked removed-by-category, created at or after the cutoff and, when a
  keyword is configured, the keyword occurs in its lower-cased combined text; a post that
  passes gets a sentiment draft only when its combined text is non-empty. A comment
  contributes a draft record and a sentiment draft iff it is a \<open>t1\<close> child with data, created
  at or after the cutoff, with a body that is non-empty once the sentinels are replaced, and
  matching the keyword when there is one; \<open>stickied\<close> is not consulted for comments. An item
  that does not pass leaves the state and the world unchanged. The only error the bodies
  raise is the range error of a timestamp outside the range of \<open>Date\<close>.
\<close>

theorem content_filter_amended:
  "(\<not> post_passes since kw child \<longrightarrow>
      post_body pf refresh sub tf since kw now child st w = (Inr st, w)) \<and>
   (post_passes since kw child \<and>
    post_body pf refresh sub tf since kw now child st w = (Inr st', w') \<longrightarrow>
      (\<exists>d t. pc_data child = Some d \<and> p_created_utc d = Some t \<and>
         postRecords st' = postRecords st @ [post_record sub now d (t * 1000)] \<and>
         postSentiments st' = postSentiments st @
           (if combined_text d = [] then []
            else [post_sentiment pf sub d (t * 1000) (clock w)]))) \<and>
   (post_body pf refresh sub tf since kw now child st w = (Inl e, w') \<longrightarrow>
      e = ''Invalid time value'') \<and>
   (\<not> comment_passes since kw cc \<longrightarrow>
      comment_body pf sub tf since kw d0 cc st w = Inr st) \<and>
   (comment_passes since kw cc \<and> comment_body pf sub tf since kw d0 cc st w = Inr st'' \<longrightarrow>
      (\<exists>c t. cc_data cc = Some c \<and> c_created_utc c = Some t \<and>
         commentRecords st'' = commentRecords st @ [comment_record d0 c (t * 1000)] \<and>
         commentSentiments st'' = commentSentiments st @
           [comment_sentiment pf sub c (t * 1000) (clock w)])) \<and>
   (comment_body pf sub tf since kw d0 cc st w = Inl e' \<longrightarrow> e' = ''Invalid time value'')"
proof -
  have p2: "\<exists>d t. pc_data child = Some d \<and> p_created_utc d = Some t \<and>
         postRecords st' = postRecords st @ [post_record sub now d (t * 1000)] \<and>
         postSentiments st' = postSentiments st @
           (if combined_text d = [] then []
            else [post_sentiment pf sub d (t * 1000) (clock w)])"
    if pass: "post_passes since kw child"
      and run: "post_body pf refresh sub tf since kw now child st w = (Inr st', w')"
  proof -
    from pass obtain d t where dt: "pc_data child = Some d" "p_created_utc d = Some t"
      by (rule post_passes_data)
    from post_body_drafts [OF pass dt run] dt show ?thesis by blast
  qed
  have c2: "\<exists>c t. cc_data cc = Some c \<and> c_created_utc c = Some t \<and>
         commentRecords st'' = commentRecords st @ [comment_record d0 c (t * 1000)] \<and>
         commentSentiments st'' = commentSentiments st @
           [comment_sentiment pf sub c (t * 1000) (clock w)]"
    if pass: "comment_passes since kw cc"
      and run: "comment_body pf sub tf since kw d0 cc st w = Inr st''"
  proof -
    from pass obtain c t where ct: "cc_data cc = Some c" "c_created_utc c = Some t"
      by (rule comment_passes_data)
    from run comment_body_kept [OF pass ct, of pf sub tf d0 st w]
    have "commentRecords st'' = commentRecords st @ [comment_record d0 c (t * 1000)] \<and>
         commentSentiments st'' = commentSentiments st @
           [comment_sentiment pf sub c (t * 1000) (clock w)]"
      by (auto split: sum.splits dest: toISOString_Inr)
    with ct show ?thesis by blast
  qed
  show ?thesis
    using p2 c2 post_body_skipped [of since kw child pf refresh sub tf now st w]
      post_body_error [of pf refresh sub tf since kw now child st w e w']
      comment_body_skipped [of since kw cc pf sub tf d0 st w]
      comment_body_error [of pf sub tf since kw d0 cc st w e']
    by blast
qed

text \<open>
  C7. A post or a comment created strictly before the cutoff, even by one second, leaves
  the drafts, the sentiments and the aggregates as they were (for a post no comments are
  fetched either); an item created at or after the cutoff that meets the other conditions
  of the filter is recorded.
\<close>

theorem window_exclusion:
  "(pc_data child = Some d \<and> p_created_utc d = Some t \<and> t < since \<longrightarrow>
      post_body pf refresh sub tf since kw now child st w = (Inr st, w)) \<and>
   (cc_data cc = Some c \<and> c_created_utc c = Some t' \<and> t' < since \<longrightarrow>
      comment_body pf sub tf since kw d0 cc st w = Inr st) \<and>
   (pc_data child = Some d \<and> p_created_utc d = Some t \<and> since \<le> t \<and>
    pc_kind child = ''t3'' \<and> \<not> p_stickied d \<and> \<not> truthy (p_removed_by_category d) \<and>
    (truthy kw \<longrightarrow> matchesKeyword (combined_text d) kw) \<and>
    post_body pf refresh sub tf since kw now child st w = (Inr st', w') \<longrightarrow>
      postRecords st' = postRecords st @ [post_record sub now d (t * 1000)]) \<and>
   (cc_data cc = Some c \<and> c_created_utc c = Some t' \<and> since \<le> t' \<and>
    cc_kind cc = ''t1'' \<and> sanitizeText (c_body c) \<noteq> [] \<and>
    (truthy kw \<longrightarrow> matchesKeyword (sanitizeText (c_body c)) kw) \<and>
    \<bar>t' * 1000\<bar> \<le> 8640000000000000 \<longrightarrow>
      (\<exists>st''. comment_body pf sub tf since kw d0 cc st w = Inr st'' \<and>
         commentRecords st'' = commentRecords st @ [comment_record d0 c (t' * 1000)]))"
proof -
  have a: "post_body pf refresh sub tf since kw now child st w = (Inr st, w)"
    if "pc_data child = Some d" "p_created_utc d = Some t" "t < since"
  proof -
    from that have "\<not> post_passes since kw child" by (simp add: post_passes_def)
    then show ?thesis by (rule post_body_skipped)
  qed
  have b: "comment_body pf sub tf since kw d0 cc st w = Inr st"
    if "cc_data cc = Some c" "c_created_utc c = Some t'" "t' < since"
  proof -
    from that have "\<not> comment_passes since kw cc" by (simp add: comment_passes_def)
    then show ?thesis by (rule comment_body_skipped)
  qed
  have c: "postRecords st' = postRecords st @ [post_record sub now d (t * 1000)]"
    if dt: "pc_data child = Some d" "p_created_utc d = Some t" and "since \<le> t"
      "pc_kind child = ''t3''" "\<not> p_stickied d" "\<not> truthy (p_removed_by_category d)"
      "truthy kw \<longrightarrow> matchesKeyword (combined_text d) kw"
      and run: "post_body pf refresh sub tf since kw now child st w = (Inr st', w')"
  proof -
    from that have "post_passes since kw child" by (simp add: post_passes_def)
    from post_body_drafts [OF this dt run] show ?thesis by simp
  qed
  have d: "\<exists>st''. comment_body pf sub tf since kw d0 cc st w = Inr st'' \<and>
         commentRecords st'' = commentRecords st @ [comment_record d0 c (t' * 1000)]"
    if ct: "cc_data cc = Some c" "c_created_utc c = Some t'" and "since \<le> t'"
      "cc_kind cc = ''t1''" "sanitizeText (c_body c) \<noteq> []"
      "truthy kw \<longrightarrow> matchesKeyword (sanitizeText (c_body c)) kw"
      and range: "\<bar>t' * 1000\<bar> \<le> 8640000000000000"
  proof -
    from that have "comment_passes since kw cc" by (simp add: comment_passes_def)
    from comment_body_kept [OF this ct, of pf sub tf d0 st w] range show ?thesis
      by (simp add: toISOString_def)
  qed
  from a b c d show ?thesis by blast
qed

text \<open>
  C2. When the comment fetch of a post that passed the filter throws, the post loop goes on
  with the remaining posts from a state that keeps the post's own drafts and everything
  recorded before, with a warning added that names the post; the loop does not fail, and
  the warning is still there when the loop ends.
\<close>

theorem comment_fetch_failure_is_a_warning:
  assumes "post_passes since kw child" "pc_data child = Some d" "p_created_utc d = Some t"
    and "toISOString (t * 1000) = Inr posted"
    and "fetchJson pf refresh (commentsUrl (p_id d)) 1 w = (Inl message, w1)"
  shows
    "post_loop pf refresh sub tf since kw now (child # rest) st w =
       post_loop pf refresh sub tf since kw now rest
         ((with_post pf sub tf now d posted (clock w) st)
            \<lparr>errors := errors st @ [comments_warning sub (p_id d) message]\<rparr>)
         (delay RATE_LIMIT_MS w1) \<and>
     str_includes (comments_warning sub (p_id d) message) (p_id d) \<and>
     (\<forall>st' w'. post_loop pf refresh sub tf since kw now (child # rest) st w = (Inr st', w')
        \<longrightarrow> comments_warning sub (p_id d) message \<in> set (errors st'))"
proof -
  have body: "post_body pf refresh sub tf since kw now child st w =
      (Inr ((with_post pf sub tf now d posted (clock w) st)
              \<lparr>errors := errors st @ [comments_warning sub (p_id d) message]\<rparr>),
       delay RATE_LIMIT_MS w1)"
    using assms(4,5) by (simp add: post_body_kept [OF assms(1-3)])
  then have loop: "post_loop pf refresh sub tf since kw now (child # rest) st w =
       post_loop pf refresh sub tf since kw now rest
         ((with_post pf sub tf now d posted (clock w) st)
            \<lparr>errors := errors st @ [comments_warning sub (p_id d) message]\<rparr>)
         (delay RATE_LIMIT_MS w1)"
    by simp
  have named: "str_includes (comments_warning sub (p_id d) message) (p_id d)"
    unfolding comments_warning_def
    using str_includes_append
      [of "''['' @ sr_name sub @ ''] Failed to fetch comments for ''" "p_id d" "'': '' @ message"]
    by simp
  have kept: "comments_warning sub (p_id d) message \<in> set (errors st')"
    if "post_loop pf refresh sub tf since kw now (child # rest) st w = (Inr st', w')"
    for st' w'
    using post_loop_errors [OF that [unfolded loop]] by auto
  from loop named kept show ?thesis by blast
qed

subsection \<open>Aggregates\<close>








end
